theory Spec2Isabelle
  imports Main "HOL-Library.Word" "HOL-Library.Sublist"
begin

section \<open>Strings and values of the JavaScript sources\<close>

text \<open>
  A JavaScript string is a sequence of UTF-16 code units and \<open>.length\<close> counts them;
  \<open>jsstring\<close> is the list of the code units, so \<open>length\<close> is \<open>.length\<close>. Source literals
  that are plain ASCII are written with \<open>asc\<close>, the others as the hexadecimal code units
  of the literal, character by character as the source file holds them.

  The tables of \<open>utils.js\<close> hold Bengali digits and letters (U+0980 to U+09FF), one code
  unit each. The non-ASCII literals of \<open>index.js\<close> are held in another form: each byte of
  the UTF-8 form of a Bengali word or of a symbol stands there as a character of its own
  (U+2021, U+00B6, U+00DC and the like), so a Bengali letter takes three code units in
  them. The definitions below hold these literals as the file has them.
\<close>

type_synonym jsstring = "nat list"

definition asc :: "string \<Rightarrow> jsstring" where
  "asc s = map of_char s"

text \<open>
  The tables of \<open>utils.js\<close> are object literals, so a property read \<open>obj[key]\<close> that finds
  no own property goes on to \<open>Object.prototype\<close>. \<open>OBJECT_PROTOTYPE\<close> lists the property
  names every object inherits from there in Node.js; each of them holds a function (or,
  for \<open>__proto__\<close>, the prototype object itself), so each is truthy. A value read from a
  table is therefore a string of the table or such an inherited member.
\<close>

datatype jsval = JStr jsstring | JInherited jsstring

definition OBJECT_PROTOTYPE :: "jsstring list" where
  "OBJECT_PROTOTYPE = map asc
     [''constructor'', ''__defineGetter__'', ''__defineSetter__'', ''hasOwnProperty'',
      ''__lookupGetter__'', ''__lookupSetter__'', ''isPrototypeOf'',
      ''propertyIsEnumerable'', ''toString'', ''valueOf'', ''__proto__'',
      ''toLocaleString'']"

text \<open>
  \<open>obj[key]\<close> on an object literal given as the list of its properties; \<open>None\<close> is
  \<open>undefined\<close>. No key is written twice in the tables, so the first match is the only one.
\<close>

definition getProp :: "(jsstring \<times> jsstring) list \<Rightarrow> jsstring \<Rightarrow> jsval option" where
  "getProp obj key =
     (case map_of obj key of
        Some v \<Rightarrow> Some (JStr v)
      | None \<Rightarrow> if key \<in> set OBJECT_PROTOTYPE then Some (JInherited key) else None)"

text \<open>Truthiness: \<open>undefined\<close> and the empty string are falsy, objects and functions truthy.\<close>

fun truthy :: "jsval option \<Rightarrow> bool" where
  "truthy None = False"
| "truthy (Some (JStr s)) = (s \<noteq> [])"
| "truthy (Some (JInherited k)) = True"

text \<open>\<open>a || b\<close> for a value read from a table and a default.\<close>

definition js_or :: "jsval option \<Rightarrow> jsval \<Rightarrow> jsval" where
  "js_or a b = (case a of Some v \<Rightarrow> if truthy a then v else b | None \<Rightarrow> b)"

section \<open>utils.js\<close>

text \<open>The ordinal table: the days 1 to 31 in Bengali digits (U+09E6 is the digit zero).\<close>

definition BANGLA_ORDINALS :: "(jsstring \<times> jsstring) list" where
  "BANGLA_ORDINALS =
    [
     ([0x9E7], [0x9E7, 0x9B2, 0x9BE]),
     ([0x9E8], [0x9E8, 0x9B0, 0x9BE]),
     ([0x9E9], [0x9E9, 0x9B0, 0x9BE]),
     ([0x9EA], [0x9EA, 0x9A0, 0x9BE]),
     ([0x9EB], [0x9EB, 0x987]),
     ([0x9EC], [0x9EC, 0x987]),
     ([0x9ED], [0x9ED, 0x987]),
     ([0x9EE], [0x9EE, 0x987]),
     ([0x9EF], [0x9EF, 0x987]),
     ([0x9E7, 0x9E6], [0x9E7, 0x9E6, 0x987]),
     ([0x9E7, 0x9E7], [0x9E7, 0x9E7, 0x987]),
     ([0x9E7, 0x9E8], [0x9E7, 0x9E8, 0x987]),
     ([0x9E7, 0x9E9], [0x9E7, 0x9E9, 0x987]),
     ([0x9E7, 0x9EA], [0x9E7, 0x9EA, 0x987]),
     ([0x9E7, 0x9EB], [0x9E7, 0x9EB, 0x987]),
     ([0x9E7, 0x9EC], [0x9E7, 0x9EC, 0x987]),
     ([0x9E7, 0x9ED], [0x9E7, 0x9ED, 0x987]),
     ([0x9E7, 0x9EE], [0x9E7, 0x9EE, 0x987]),
     ([0x9E7, 0x9EF], [0x9E7, 0x9EF, 0x9B6, 0x9C7]),
     ([0x9E8, 0x9E6], [0x9E8, 0x9E6, 0x9B6, 0x9C7]),
     ([0x9E8, 0x9E7], [0x9E8, 0x9E7, 0x9B6, 0x9C7]),
     ([0x9E8, 0x9E8], [0x9E8, 0x9E8, 0x9B6, 0x9C7]),
     ([0x9E8, 0x9E9], [0x9E8, 0x9E9, 0x9B6, 0x9C7]),
     ([0x9E8, 0x9EA], [0x9E8, 0x9EA, 0x9B6, 0x9C7]),
     ([0x9E8, 0x9EB], [0x9E8, 0x9EB, 0x9B6, 0x9C7]),
     ([0x9E8, 0x9EC], [0x9E8, 0x9EC, 0x9B6, 0x9C7]),
     ([0x9E8, 0x9ED], [0x9E8, 0x9ED, 0x9B6, 0x9C7]),
     ([0x9E8, 0x9EE], [0x9E8, 0x9EE, 0x9B6, 0x9C7]),
     ([0x9E8, 0x9EF], [0x9E8, 0x9EF, 0x9B6, 0x9C7]),
     ([0x9E9, 0x9E6], [0x9E9, 0x9E6, 0x9B6, 0x9C7]),
     ([0x9E9, 0x9E7], [0x9E9, 0x9E7, 0x9B6, 0x9C7])
    ]"

text \<open>The season table: the twelve months of the Bengali calendar, in calendar order.\<close>

definition BANGLA_SEASONS :: "(jsstring \<times> jsstring) list" where
  "BANGLA_SEASONS =
    [
     ([0x9AC, 0x9C8, 0x9B6, 0x9BE, 0x996], [0x997, 0x9CD, 0x9B0, 0x9C0, 0x9B7, 0x9CD, 0x9AE]),
     ([0x99C, 0x9CD, 0x9AF, 0x9C8, 0x9B7, 0x9CD, 0x9A0], [0x997, 0x9CD, 0x9B0, 0x9C0, 0x9B7, 0x9CD, 0x9AE]),
     ([0x986, 0x9B7, 0x9BE, 0x9A2, 0x9BC], [0x9AC, 0x9B0, 0x9CD, 0x9B7, 0x9BE]),
     ([0x9B6, 0x9CD, 0x9B0, 0x9BE, 0x9AC, 0x9A3], [0x9AC, 0x9B0, 0x9CD, 0x9B7, 0x9BE]),
     ([0x9AD, 0x9BE, 0x9A6, 0x9CD, 0x9B0], [0x9B6, 0x9B0, 0x9CE]),
     ([0x986, 0x9B6, 0x9CD, 0x9AC, 0x9BF, 0x9A8], [0x9B6, 0x9B0, 0x9CE]),
     ([0x995, 0x9BE, 0x9B0, 0x9CD, 0x9A4, 0x9BF, 0x995], [0x9B9, 0x9C7, 0x9AE, 0x9A8, 0x9CD, 0x9A4]),
     ([0x985, 0x997, 0x9CD, 0x9B0, 0x9B9, 0x9BE, 0x9AF, 0x9BC, 0x9A3], [0x9B9, 0x9C7, 0x9AE, 0x9A8, 0x9CD, 0x9A4]),
     ([0x9AA, 0x9CC, 0x9B7], [0x9B6, 0x9C0, 0x9A4]),
     ([0x9AE, 0x9BE, 0x998], [0x9B6, 0x9C0, 0x9A4]),
     ([0x9AB, 0x9BE, 0x9B2, 0x9CD, 0x997, 0x9C1, 0x9A8], [0x9AC, 0x9B8, 0x9A8, 0x9CD, 0x9A4]),
     ([0x99A, 0x9C8, 0x9A4, 0x9CD, 0x9B0], [0x9AC, 0x9B8, 0x9A8, 0x9CD, 0x9A4])
    ]"

definition getBanglaOrdinal :: "jsstring \<Rightarrow> jsval" where
  "getBanglaOrdinal banglaDate = js_or (getProp BANGLA_ORDINALS banglaDate) (JStr banglaDate)"

definition getBanglaSeason :: "jsstring \<Rightarrow> jsval" where
  "getBanglaSeason banglaMonth = js_or (getProp BANGLA_SEASONS banglaMonth) (JStr [])"


section \<open>index.js: the date, the caption and the post text\<close>

text \<open>
  What the \<open>bangla-calendar\<close> package returns for the current time in Bangladesh
  (\<open>getDay\<close>, \<open>getMonth\<close>, \<open>getYear\<close>, \<open>getWeekDay\<close>): four strings. The package is
  not part of the repository, so its results are inputs.
\<close>

record calendar =
  banglaDay :: jsstring
  banglaMonth :: jsstring
  banglaYear :: jsstring
  banglaWeekday :: jsstring

text \<open>
  The object \<open>getBanglaDateInfo\<close> returns. Its fields \<open>englishDate\<close> and \<open>bdTime\<close> are
  read by no caller and are left out.
\<close>

record banglaDateInfo =
  date :: jsval
  month :: jsstring
  year :: jsstring
  weekday :: jsstring
  season :: jsval

definition getBanglaDateInfo :: "calendar \<Rightarrow> banglaDateInfo" where
  "getBanglaDateInfo cal =
     \<lparr>date = getBanglaOrdinal (banglaDay cal),
      month = banglaMonth cal,
      year = banglaYear cal,
      weekday = banglaWeekday cal,
      season = getBanglaSeason (banglaMonth cal)\<rparr>"

text \<open>
  \<open>${v}\<close> in a template literal is \<open>ToString(v)\<close>: a string is itself. The text of a
  member inherited from \<open>Object.prototype\<close> (the source text of a native function) is the
  engine's own; it is the parameter \<open>native\<close>, from the member's name to its text.
\<close>

definition interpolate :: "(jsstring \<Rightarrow> jsstring) \<Rightarrow> jsval \<Rightarrow> jsstring" where
  "interpolate native v = (case v of JStr s \<Rightarrow> s | JInherited k \<Rightarrow> native k)"

definition BONGABDO :: jsstring where
  "BONGABDO =
     asc '' '' @ [0x2021, 0xB6, 0xA8, 0x2021, 0xB6, 0xF4, 0x2021, 0xDF, 0xE7, 0x2021] @
     [0xB6, 0xF3, 0x2021, 0xB6, 0xE6, 0x2021, 0xB6, 0xA8, 0x2021, 0xDF] @
     [0xE7, 0x2021, 0xB6, 0xB6]"

text \<open>
  \<open>captionDateText\<close> of \<open>createBanglaDateImage\<close>: date, month, year and the era's name
  (\<open>BONGABDO\<close>, a space and 24 code units).
\<close>

definition captionDateText :: "(jsstring \<Rightarrow> jsstring) \<Rightarrow> banglaDateInfo \<Rightarrow> jsstring" where
  "captionDateText native info =
     interpolate native (date info) @ asc '' '' @ month info @ asc '', '' @ year info @ BONGABDO"

text \<open>
  The template literal \<open>postText\<close> of \<open>postToBluesky\<close>, cut at its three interpolations:
  17, 2, 11 and 140 code units. The closing piece holds the season's suffix, two line
  feeds and the eight hashtags.
\<close>

definition POST_OPENING :: jsstring where
  "POST_OPENING =
     [0x2021, 0xB6, 0xDC, 0x2021, 0xB6, 0xFA] @ asc '' '' @
     [0x2021, 0xB6, 0x221E, 0x2021, 0xDF, 0xE3, 0x2021, 0xB6, 0xFA] @ asc '' ''"

definition POST_AFTER_WEEKDAY :: jsstring where
  "POST_AFTER_WEEKDAY =
     asc '','' @ [0xA]"

definition POST_BEFORE_SEASON :: jsstring where
  "POST_BEFORE_SEASON =
     [0xA, 0x2021, 0xB6, 0xE8, 0x2021, 0xB6, 0xA8, 0x2021, 0xB6, 0xC7] @ asc '' ''"

definition POST_CLOSING :: jsstring where
  "POST_CLOSING =
     [0x2021, 0xB6, 0xEF, 0x2021, 0xB6, 0xE6, 0x2021, 0xB6, 0x2264, 0xA] @ [0xA] @
     asc ''#Bangladesh #Bangla #'' @
     [0x2021, 0xB6, 0xA8, 0x2021, 0xB6, 0xE6, 0x2021, 0xB6, 0xC7, 0x2021] @
     [0xB6, 0x2264, 0x2021, 0xB6, 0xE6, 0x2021, 0xB6, 0xB6, 0x2021, 0xDF] @
     [0xE1, 0x2021, 0xB6, 0x2202] @ asc '' #'' @
     [0x2021, 0xB6, 0xA8, 0x2021, 0xB6, 0xE6, 0x2021, 0xB6, 0xC7, 0x2021] @
     [0xB6, 0x2264, 0x2021, 0xB6, 0xE6] @ asc '' #'' @
     [0x2021, 0xB6, 0xA8, 0x2021, 0xB6, 0xE6, 0x2021, 0xB6, 0xC7, 0x2021] @
     [0xB6, 0x2264, 0x2021, 0xB6, 0xE6, 0x2021, 0xB6, 0xA7, 0x2021, 0xB6] @
     [0xE6, 0x2021, 0xB6, 0x221E, 0x2021, 0xB6, 0xF8, 0x2021, 0xB6, 0xF1] @ asc '' #'' @
     [0x2021, 0xB6, 0xA7, 0x2021, 0xB6, 0xE6, 0x2021, 0xB6, 0x221E, 0x2021] @
     [0xB6, 0xF8, 0x2021, 0xB6, 0xF1] @ asc '' #date #BanglaDate''"

definition postText :: "(jsstring \<Rightarrow> jsstring) \<Rightarrow> banglaDateInfo \<Rightarrow> jsstring \<Rightarrow> jsstring" where
  "postText native info dateText =
     POST_OPENING @ weekday info @ POST_AFTER_WEEKDAY @ dateText @
     POST_BEFORE_SEASON @ interpolate native (season info) @ POST_CLOSING"

definition ALT_PREFIX :: jsstring where
  "ALT_PREFIX =
     [0x2021, 0xB6, 0xDC, 0x2021, 0xB6, 0xFA, 0x2021, 0xB6, 0xEF, 0x2021] @
     [0xDF, 0xE1, 0x2021, 0xB6, 0x221E] @ asc '' '' @
     [0x2021, 0xB6, 0xA8, 0x2021, 0xB6, 0xE6, 0x2021, 0xB6, 0xC7, 0x2021] @
     [0xB6, 0x2264, 0x2021, 0xB6, 0xE6] @ asc '' '' @
     [0x2021, 0xB6, 0xA7, 0x2021, 0xB6, 0xE6, 0x2021, 0xB6, 0x221E, 0x2021] @
     [0xB6, 0xF8, 0x2021, 0xB6, 0xF1] @ asc '': ''"

section \<open>index.js: the outside world\<close>

text \<open>A thrown \<open>Error\<close>: the two properties the handlers print.\<close>

record jserror =
  message :: jsstring
  stack :: jsstring

type_synonym bytes = "8 word list"

type_synonym blobref = jsstring

text \<open>A rich-text facet of the post record: a byte range of the text and the tag it links.\<close>

record facet =
  byteStart :: nat
  byteEnd :: nat
  tag :: jsstring

record imageEntry =
  alt :: jsstring
  image_blob :: blobref

text \<open>The record handed to \<open>agent.post\<close>; \<open>embed_type\<close> is the \<open>$type\<close> of its embed.\<close>

record postRecord =
  post_text :: jsstring
  facets :: "facet list"
  embed_type :: jsstring
  images :: "imageEntry list"
  createdAt :: jsstring

text \<open>
  Everything the script reads from outside: the five environment variables (\<open>None\<close> is
  an unset variable), the file system and the posting client. Each operation either
  throws (\<open>Inl\<close>, or \<open>Some\<close> for \<open>login\<close>, which returns nothing the script uses) or
  returns. \<open>ensureOutputDir\<close> is the \<open>existsSync\<close>/\<open>mkdirSync\<close> step of \<open>main\<close>,
  \<open>drawImage\<close> everything \<open>createBanglaDateImage\<close> does to draw and write the file,
  \<open>detectFacets\<close> the facets \<open>RichText.detectFacets\<close> leaves in \<open>rt.facets\<close>.
\<close>

record world =
  BLUESKY_HANDLE :: "jsstring option"
  BSKY_USERNAME :: "jsstring option"
  BLUESKY_PASSWORD :: "jsstring option"
  BSKY_APP_PASSWORD :: "jsstring option"
  POST_TO_BLUESKY :: "jsstring option"
  ensureOutputDir :: "jserror option"
  drawImage :: "jsstring \<Rightarrow> jserror option"
  readFileSync :: "jsstring \<Rightarrow> jserror + bytes"
  login :: "jsstring \<Rightarrow> jsstring \<Rightarrow> jserror option"
  uploadBlob :: "bytes \<Rightarrow> jsstring \<Rightarrow> jserror + blobref"
  detectFacets :: "jsstring \<Rightarrow> jserror + facet list"
  post :: "postRecord \<Rightarrow> jserror + jsstring"

text \<open>
  What a run does to the outside, in order: the calls on the posting client, the file
  read, and the console lines of \<open>postToBluesky\<close> and \<open>main\<close>.
\<close>

datatype event =
    Login jsstring jsstring
  | ReadFile jsstring
  | UploadBlob bytes jsstring
  | DetectFacets jsstring
  | CreatePost postRecord
  | ConsoleLog jsstring
  | ConsoleWarn jsstring
  | ConsoleError jsstring

definition MSG_POSTING :: jsstring where
  "MSG_POSTING =
     [0xF8FF, 0xFC, 0xEE, 0xD1] @ asc '' Posting to Bluesky...''"

definition MSG_NO_CREDENTIALS :: jsstring where
  "MSG_NO_CREDENTIALS =
     [0x201A, 0xF6, 0x2020, 0xD4, 0x220F, 0xE8] @
     asc ''  Bluesky credentials not found in environment variables''"

definition MSG_SKIPPING :: jsstring where
  "MSG_SKIPPING =
     asc ''Skipping Bluesky post...''"

definition MSG_LOGGED_IN :: jsstring where
  "MSG_LOGGED_IN =
     [0x201A, 0xFA, 0xD6] @ asc '' Logged in to Bluesky''"

definition MSG_UPLOADED :: jsstring where
  "MSG_UPLOADED =
     [0x201A, 0xFA, 0xD6] @ asc '' Image uploaded''"

definition MSG_POSTED :: jsstring where
  "MSG_POSTED =
     [0x201A, 0xFA, 0xD6] @ asc '' Posted to Bluesky: ''"

definition MSG_POST_ERROR :: jsstring where
  "MSG_POST_ERROR =
     [0x201A, 0xF9, 0xE5] @ asc '' Error posting to Bluesky: ''"

definition MSG_STARTING :: jsstring where
  "MSG_STARTING =
     [0xF8FF, 0xFC, 0xEE, 0xD1] @ asc '' Starting Bangla date image generator...''"

definition MSG_NOT_SET :: jsstring where
  "MSG_NOT_SET =
     [0xA, 0x201A, 0xF6, 0x2020, 0xD4, 0x220F, 0xE8] @
     asc ''  POST_TO_BLUESKY not set to '' @ [0x27] @ asc ''true'' @ [0x27] @
     asc '', skipping Bluesky post''"

definition MSG_HOWTO :: jsstring where
  "MSG_HOWTO =
     [0xF8FF, 0xFC, 0xEC, 0xF9] @
     asc '' To post to Bluesky, set POST_TO_BLUESKY=true in your .env file''"

definition MSG_DONE :: jsstring where
  "MSG_DONE =
     [0xA, 0x201A, 0xFA, 0xAE] @ asc '' Done!''"

definition MSG_ERROR :: jsstring where
  "MSG_ERROR =
     [0x201A, 0xF9, 0xE5] @ asc '' Error: ''"


section \<open>index.js: postToBluesky and main\<close>

text \<open>\<open>a || b\<close> on two environment variables: an unset or empty first one yields the second.\<close>

definition env_or :: "jsstring option \<Rightarrow> jsstring option \<Rightarrow> jsstring option" where
  "env_or a b = (case a of Some s \<Rightarrow> if s \<noteq> [] then Some s else b | None \<Rightarrow> b)"

text \<open>
  The credentials \<open>postToBluesky\<close> goes on with: \<open>None\<close> when \<open>!handle || !password\<close>
  holds, that is, when either is undefined or empty after the fallback.
\<close>

definition credentials :: "world \<Rightarrow> (jsstring \<times> jsstring) option" where
  "credentials w =
     (case (env_or (BLUESKY_HANDLE w) (BSKY_USERNAME w),
            env_or (BLUESKY_PASSWORD w) (BSKY_APP_PASSWORD w)) of
        (Some handle, Some password) \<Rightarrow>
          if handle = [] \<or> password = [] then None else Some (handle, password)
      | _ \<Rightarrow> None)"

definition IMAGE_PNG :: jsstring where
  "IMAGE_PNG = asc ''image/png''"

definition EMBED_IMAGES :: jsstring where
  "EMBED_IMAGES = asc ''app.bsky.embed.images''"

text \<open>
  The body of the \<open>try\<close> block: the error it throws, if any, and what it did until then.
  \<open>now\<close> is \<open>new Date().toISOString()\<close> at the time the record is built.
\<close>

definition tryPost ::
  "(jsstring \<Rightarrow> jsstring) \<Rightarrow> world \<Rightarrow> jsstring \<Rightarrow> jsstring \<Rightarrow> jsstring \<Rightarrow> jsstring \<Rightarrow> jsstring \<Rightarrow>
   banglaDateInfo \<Rightarrow> jserror option \<times> event list" where
  "tryPost native w now handle password imagePath dateText info =
     (let t1 = [Login handle password] in
      case login w handle password of
        Some e \<Rightarrow> (Some e, t1)
      | None \<Rightarrow>
          let t2 = t1 @ [ConsoleLog MSG_LOGGED_IN, ReadFile imagePath] in
          (case readFileSync w imagePath of
             Inl e \<Rightarrow> (Some e, t2)
           | Inr imageBuffer \<Rightarrow>
               let t3 = t2 @ [UploadBlob imageBuffer IMAGE_PNG] in
               (case uploadBlob w imageBuffer IMAGE_PNG of
                  Inl e \<Rightarrow> (Some e, t3)
                | Inr blob \<Rightarrow>
                    let txt = postText native info dateText;
                        t4 = t3 @ [ConsoleLog MSG_UPLOADED, DetectFacets txt] in
                    (case detectFacets w txt of
                       Inl e \<Rightarrow> (Some e, t4)
                     | Inr fs \<Rightarrow>
                         let postRecord =
                               \<lparr>post_text = txt,
                                facets = fs,
                                embed_type = EMBED_IMAGES,
                                images = [\<lparr>alt = ALT_PREFIX @ dateText, image_blob = blob\<rparr>],
                                createdAt = now\<rparr>;
                             t5 = t4 @ [CreatePost postRecord] in
                         (case post w postRecord of
                            Inl e \<Rightarrow> (Some e, t5)
                          | Inr uri \<Rightarrow> (None, t5 @ [ConsoleLog (MSG_POSTED @ uri)]))))))"

text \<open>
  \<open>postToBluesky\<close>: the boolean it returns and what it did. Without credentials it
  returns before the \<open>try\<close>; an error thrown in the \<open>try\<close> is caught, printed and turned
  into \<open>false\<close>.
\<close>

definition postToBluesky ::
  "(jsstring \<Rightarrow> jsstring) \<Rightarrow> world \<Rightarrow> jsstring \<Rightarrow> jsstring \<Rightarrow> jsstring \<Rightarrow> banglaDateInfo \<Rightarrow>
   bool \<times> event list" where
  "postToBluesky native w now imagePath dateText info =
     (case credentials w of
        None \<Rightarrow>
          (False, [ConsoleLog MSG_POSTING, ConsoleWarn MSG_NO_CREDENTIALS, ConsoleLog MSG_SKIPPING])
      | Some (handle, password) \<Rightarrow>
          (case tryPost native w now handle password imagePath dateText info of
             (None, t) \<Rightarrow> (True, ConsoleLog MSG_POSTING # t)
           | (Some error, t) \<Rightarrow>
               (False,
                ConsoleLog MSG_POSTING # t @
                [ConsoleError (MSG_POST_ERROR @ message error), ConsoleError (stack error)])))"

text \<open>
  \<open>createBanglaDateImage\<close>, as far as the post depends on it: it throws when drawing or
  writing the file does, and else returns the caption's date text and the date object.
\<close>

definition createBanglaDateImage ::
  "(jsstring \<Rightarrow> jsstring) \<Rightarrow> world \<Rightarrow> calendar \<Rightarrow> jsstring \<Rightarrow> jserror + jsstring \<times> banglaDateInfo" where
  "createBanglaDateImage native w cal outputPath =
     (let banglaDateInfo = getBanglaDateInfo cal in
      case drawImage w outputPath of
        Some e \<Rightarrow> Inl e
      | None \<Rightarrow> Inr (captionDateText native banglaDateInfo, banglaDateInfo))"

text \<open>
  \<open>toLowerCase\<close> on the letters A to Z. The only other code units with a lower case in
  ASCII are U+0130 and U+212A, whose lower cases are not among t, r, u, e; so the
  comparison with \<open>'true'\<close> below comes out as in the source.
\<close>

definition toLowerCase :: "jsstring \<Rightarrow> jsstring" where
  "toLowerCase s = map (\<lambda>c. if 0x41 \<le> c \<and> c \<le> 0x5A then c + 0x20 else c) s"

definition shouldPost :: "world \<Rightarrow> bool" where
  "shouldPost w =
     (case POST_TO_BLUESKY w of None \<Rightarrow> False | Some v \<Rightarrow> toLowerCase v = asc ''true'')"

text \<open>
  \<open>main\<close>: the exit status of the process and what the run did. The \<open>catch\<close> of \<open>main\<close>
  ends the process with \<open>process.exit(1)\<close>; a run that leaves the \<open>try\<close> normally ends
  with status 0. The value \<open>postToBluesky\<close> returns is not read.
\<close>

definition main ::
  "(jsstring \<Rightarrow> jsstring) \<Rightarrow> world \<Rightarrow> calendar \<Rightarrow> jsstring \<Rightarrow> jsstring \<Rightarrow> nat \<times> event list" where
  "main native w cal now outputPath =
     (let t0 = [ConsoleLog MSG_STARTING];
          failed = (\<lambda>error t.
            (1::nat, t @ [ConsoleError (MSG_ERROR @ message error), ConsoleError (stack error)])) in
      case ensureOutputDir w of
        Some e \<Rightarrow> failed e t0
      | None \<Rightarrow>
          (case createBanglaDateImage native w cal outputPath of
             Inl e \<Rightarrow> failed e t0
           | Inr (dateText, banglaDateInfo) \<Rightarrow>
               if shouldPost w then
                 (0, t0 @ [ConsoleLog ([0xA] @ MSG_POSTING)] @
                     snd (postToBluesky native w now outputPath dateText banglaDateInfo) @
                     [ConsoleLog MSG_DONE])
               else (0, t0 @ [ConsoleLog MSG_NOT_SET, ConsoleLog MSG_HOWTO, ConsoleLog MSG_DONE])))"

text \<open>Reading a trace.\<close>

fun isUpload :: "event \<Rightarrow> bool" where
  "isUpload (UploadBlob b m) = True"
| "isUpload e = False"

fun isCreatePost :: "event \<Rightarrow> bool" where
  "isCreatePost (CreatePost r) = True"
| "isCreatePost e = False"

text \<open>A call that leaves the process: on the posting client.\<close>

fun isNetwork :: "event \<Rightarrow> bool" where
  "isNetwork (Login h p) = True"
| "isNetwork (UploadBlob b m) = True"
| "isNetwork (DetectFacets t) = True"
| "isNetwork (CreatePost r) = True"
| "isNetwork e = False"


section \<open>The caption builder and the post assembler of the specification\<close>

text \<open>
  The repository's sources hold the Bangla-date script only. The caption builder and the
  post assembler that the specification describes (sections 3, 4.2 and 4.3) belong to the
  wallpaper scripts, which are not among the sources; the definitions of this section
  follow the specification's words. Text is a list of Unicode code points here, its
  length the number of characters.
\<close>

type_synonym utext = "nat list"

text \<open>
  Modelled from the spec: the errors of section 7 that the caption builder and the post
  assembler raise; neither component is in the sources.
\<close>

datatype error = CaptionTooLong | TooManyImages | ImageAltMismatch

text \<open>
  Modelled from the spec: \<open>CaptionSegment\<close> of section 3 and its \<open>kind\<close>, the input of the
  caption builder, which is not in the sources.
\<close>

datatype segmentKind = Required | Optional


record captionSegment =
  seg_id :: utext
  seg_text :: utext
  priority :: int
  kind :: segmentKind
  isHashtagBlock :: bool

text \<open>
  Modelled from the spec: a hashtag span and \<open>BudgetedCaption\<close> of section 3, the result
  of the caption builder, which is not in the sources.
\<close>

record hashtagSpan =
  segmentId :: utext
  startByteOffset :: nat
  endByteOffset :: nat

record budgetedCaption =
  caption_text :: utext
  hashtagSpans :: "hashtagSpan list"

text \<open>
  Modelled from the spec: the bytes the span offsets of the missing builder count
  ("byte (not code-point) ranges matching the posting API's span encoding", section 4.2):
  the UTF-8 form of a code point and of a text.
\<close>

definition utf8_char :: "nat \<Rightarrow> bytes" where
  "utf8_char c =
     (if c < 0x80 then [of_nat c]
      else if c < 0x800 then [of_nat (0xC0 + c div 64), of_nat (0x80 + c mod 64)]
      else if c < 0x10000 then
        [of_nat (0xE0 + c div 4096), of_nat (0x80 + c div 64 mod 64), of_nat (0x80 + c mod 64)]
      else
        [of_nat (0xF0 + c div 262144), of_nat (0x80 + c div 4096 mod 64),
         of_nat (0x80 + c div 64 mod 64), of_nat (0x80 + c mod 64)])"

definition utf8 :: "utext \<Rightarrow> bytes" where
  "utf8 t = concat (map utf8_char t)"

text \<open>
  Modelled from the spec: the candidate caption of section 4.2, the concatenation of the
  segments in their order.
\<close>

definition compose :: "captionSegment list \<Rightarrow> utext" where
  "compose segs = concat (map seg_text segs)"

text \<open>
  Modelled from the spec: the Optional segments still in the sequence, and the minimal,
  Required-only composition of section 4.2 of the missing builder.
\<close>

definition optionals :: "captionSegment list \<Rightarrow> captionSegment list" where
  "optionals segs = filter (\<lambda>s. kind s = Optional) segs"

definition requiredOnly :: "captionSegment list \<Rightarrow> captionSegment list" where
  "requiredOnly segs = filter (\<lambda>s. kind s = Required) segs"

text \<open>
  Modelled from the spec: the two parts of a removal in the missing builder, the highest
  priority value of a list and the removal of the first element that a test accepts.
\<close>

fun highest :: "int list \<Rightarrow> int" where
  "highest [] = 0"
| "highest [p] = p"
| "highest (p # ps) = max p (highest ps)"

fun removeFirst :: "('a \<Rightarrow> bool) \<Rightarrow> 'a list \<Rightarrow> 'a list" where
  "removeFirst P [] = []"
| "removeFirst P (x # xs) = (if P x then xs else x # removeFirst P xs)"

text \<open>
  Modelled from the spec: one step of the missing builder, section 4.2, "remove the
  remaining Optional segment with the highest priority value". The specification names
  no order among Optional segments of equal priority; the first of them in the sequence
  is removed.
\<close>

definition dropHighest :: "captionSegment list \<Rightarrow> captionSegment list" where
  "dropHighest segs =
     removeFirst (\<lambda>s. kind s = Optional \<and> priority s = highest (map priority (optionals segs))) segs"

text \<open>
  Modelled from the spec: the loop of the missing builder, section 4.2, "until either the
  ceiling is satisfied or no Optional segments remain", failing with \<open>CaptionTooLong\<close>
  when the segments left still exceed the ceiling. It returns the segments kept.
\<close>

function keptSegments :: "captionSegment list \<Rightarrow> nat \<Rightarrow> error + captionSegment list" where
  "keptSegments segs ceiling =
     (if length (compose segs) \<le> ceiling then Inr segs
      else if optionals segs = [] then Inl CaptionTooLong
      else keptSegments (dropHighest segs) ceiling)"
  by pat_completeness auto
termination
proof (relation "measure (\<lambda>(segs, ceiling). length (optionals segs))")
  show "wf (measure (\<lambda>(segs, ceiling). length (optionals segs)))"
    by simp
next
  fix segs :: "captionSegment list" and ceiling :: nat
  assume some: "optionals segs \<noteq> []"
  let ?P = "\<lambda>s. kind s = Optional \<and> priority s = highest (map priority (optionals segs))"
  let ?Q = "\<lambda>s. kind s = Optional"
  have mem: "highest ps \<in> set ps" if "ps \<noteq> []" for ps :: "int list"
    using that by (induction ps rule: highest.induct) (auto simp: max_def)
  have rem: "(\<exists>x \<in> set xs. ?P x) \<Longrightarrow>
      length (filter ?Q xs) = Suc (length (filter ?Q (removeFirst ?P xs)))" for xs
    by (induction xs) auto
  from some have "highest (map priority (optionals segs)) \<in> set (map priority (optionals segs))"
    by (intro mem) simp
  then have "\<exists>s \<in> set segs. ?P s"
    by (auto simp: optionals_def)
  then have "length (filter ?Q segs) = Suc (length (filter ?Q (removeFirst ?P segs)))"
    by (rule rem)
  then have "length (optionals (dropHighest segs)) < length (optionals segs)"
    by (simp only: dropHighest_def optionals_def)
  then show "((dropHighest segs, ceiling), (segs, ceiling))
      \<in> measure (\<lambda>(segs, ceiling). length (optionals segs))"
    by simp
qed

text \<open>
  Modelled from the spec: where the missing builder looks for hashtags, "within a segment
  marked isHashtagBlock" (section 4.2). For every character of the composed text,
  \<open>owners\<close> gives the id of the hashtag block the character stands in, or \<open>None\<close> when
  it stands in a segment that is not one.
\<close>

definition owners :: "captionSegment list \<Rightarrow> utext option list" where
  "owners segs =
     concat (map (\<lambda>s. replicate (length (seg_text s))
                          (if isHashtagBlock s then Some (seg_id s) else None)) segs)"

text \<open>
  Modelled from the spec: hashtag detection of the missing builder, section 4.2, "a
  leading marker followed by a contiguous run of word characters", on the final text
  ("recompute hashtag span offsets against the final text only"), from byte offset \<open>off\<close>
  on. A marker counts when it stands in a hashtag block; the run of word characters after
  it is read in the final text, and the scan goes on behind the run. Which characters are
  word characters is the parameter \<open>wc\<close>.
\<close>

function scanTokens :: "(nat \<Rightarrow> bool) \<Rightarrow> nat \<Rightarrow> utext \<Rightarrow> utext option list \<Rightarrow> hashtagSpan list" where
  "scanTokens wc off [] os = []"
| "scanTokens wc off (c # cs) [] = []"
| "scanTokens wc off (c # cs) (ow # os) =
     (case ow of
        Some sid \<Rightarrow>
          if c = 0x23 \<and> takeWhile wc cs \<noteq> [] then
            \<lparr>segmentId = sid, startByteOffset = off,
             endByteOffset = off + length (utf8 (c # takeWhile wc cs))\<rparr> #
            scanTokens wc (off + length (utf8 (c # takeWhile wc cs))) (dropWhile wc cs)
              (drop (length (takeWhile wc cs)) os)
          else scanTokens wc (off + length (utf8 [c])) cs os
      | None \<Rightarrow> scanTokens wc (off + length (utf8 [c])) cs os)"
  by pat_completeness auto
termination
  by (relation "measure (\<lambda>(wc, off, cs, os). length cs)")
     (auto simp: length_dropWhile_le less_Suc_eq_le)

text \<open>
  Modelled from the spec: the spans the missing builder returns for the segments kept:
  the tokens found in their composed text, the final text.
\<close>

definition spansOf :: "(nat \<Rightarrow> bool) \<Rightarrow> captionSegment list \<Rightarrow> hashtagSpan list" where
  "spansOf wc segs = scanTokens wc 0 (compose segs) (owners segs)"

text \<open>
  Modelled from the spec: \<open>build\<close> of section 4.2, the caption builder's entry, which is
  not in the sources.
\<close>

definition build :: "(nat \<Rightarrow> bool) \<Rightarrow> captionSegment list \<Rightarrow> nat \<Rightarrow> error + budgetedCaption" where
  "build wc segs ceiling =
     (case keptSegments segs ceiling of
        Inl e \<Rightarrow> Inl e
      | Inr kept \<Rightarrow> Inr \<lparr>caption_text = compose kept, hashtagSpans = spansOf wc kept\<rparr>)"

text \<open>
  Modelled from the spec: \<open>CompressedImage\<close> and \<open>PostPayload\<close> of section 3, the input
  and the result of the post assembler, which is not in the sources.
\<close>

record compressedImage =
  image_bytes :: bytes
  mimeType :: utext
  qualityUsed :: nat
  resized :: bool

record postPayload =
  captionText :: utext
  payloadSpans :: "hashtagSpan list"
  payloadImages :: "(compressedImage \<times> utext) list"
  payloadCreatedAt :: utext

text \<open>
  Modelled from the spec: \<open>assemble\<close> of section 4.3, the post assembler's entry, which
  is not in the sources, with the checks of sections 4.3 and 8:
  an empty image list or one longer than \<open>maxImagesPerPost\<close> is \<open>TooManyImages\<close>, sequences
  of different lengths are \<open>ImageAltMismatch\<close>. The configured maximum and the time stamp
  are parameters.
\<close>

definition assemble ::
  "nat \<Rightarrow> utext \<Rightarrow> compressedImage list \<Rightarrow> utext list \<Rightarrow> budgetedCaption \<Rightarrow> error + postPayload" where
  "assemble maxImagesPerPost now imgs altTexts caption =
     (if length imgs = 0 \<or> length imgs > maxImagesPerPost then Inl TooManyImages
      else if length altTexts \<noteq> length imgs then Inl ImageAltMismatch
      else Inr \<lparr>captionText = caption_text caption,
                payloadSpans = hashtagSpans caption,
                payloadImages = zip imgs altTexts,
                payloadCreatedAt = now\<rparr>)"

section \<open>Notions the properties are stated with\<close>

text \<open>An environment variable that is not set, or set to the empty string.\<close>

definition unset :: "jsstring option \<Rightarrow> bool" where
  "unset v = (v = None \<or> v = Some [])"

text \<open>A day of the month, 1 to 99, in Bengali digits.\<close>

definition banglaNumeral :: "nat \<Rightarrow> jsstring" where
  "banglaNumeral n =
     (if n < 10 then [0x9E6 + n] else [0x9E6 + n div 10, 0x9E6 + n mod 10])"

text \<open>
  The ordinal suffix as the rule states it: one suffix for 1, one for 2 and 3, one for 4,
  one for 5 to 18, one from 19 on. This is the rule that the table of \<open>utils.js\<close> is
  compared with, not a part of the script.
\<close>

definition ruleSuffix :: "nat \<Rightarrow> jsstring" where
  "ruleSuffix n =
     (if n = 1 then [0x9B2, 0x9BE]
      else if n \<le> 3 then [0x9B0, 0x9BE]
      else if n = 4 then [0x9A0, 0x9BE]
      else if n \<le> 18 then [0x987]
      else [0x9B6, 0x9C7])"

text \<open>The month names and the season names of the season table, in the table's order.\<close>

definition BANGLA_MONTH_NAMES :: "jsstring list" where
  "BANGLA_MONTH_NAMES = map fst BANGLA_SEASONS"

definition BANGLA_SEASON_NAMES :: "jsstring list" where
  "BANGLA_SEASON_NAMES = remdups (map snd BANGLA_SEASONS)"

text \<open>The record \<open>postToBluesky\<close> builds, given the blob and the facets.\<close>

definition recordOf ::
  "(jsstring \<Rightarrow> jsstring) \<Rightarrow> jsstring \<Rightarrow> jsstring \<Rightarrow> banglaDateInfo \<Rightarrow> blobref \<Rightarrow> facet list \<Rightarrow> postRecord" where
  "recordOf native now dt info blob fs =
     \<lparr>post_text = postText native info dt, facets = fs, embed_type = EMBED_IMAGES,
      images = [\<lparr>alt = ALT_PREFIX @ dt, image_blob = blob\<rparr>], createdAt = now\<rparr>"


text \<open>
  Values for concrete runs: the date of the README's example (Friday, 23 Kartik 1432), an
  error as the client throws it, and a world in which the credentials come from
  \<open>BSKY_USERNAME\<close> and \<open>BSKY_APP_PASSWORD\<close> and every operation succeeds. \<open>noNative\<close>
  stands for the engine's text of an inherited member; no run below reads it.
\<close>

definition exampleCalendar :: calendar where
  "exampleCalendar =
     \<lparr>banglaDay = [0x9E8, 0x9E9],
      banglaMonth = [0x995, 0x9BE, 0x9B0, 0x9CD, 0x9A4, 0x9BF, 0x995],
      banglaYear = [0x9E7, 0x9EA, 0x9E9, 0x9E8],
      banglaWeekday = [0x9B6, 0x9C1, 0x995, 0x9CD, 0x9B0, 0x9AC, 0x9BE, 0x9B0]\<rparr>"

definition exampleError :: jserror where
  "exampleError =
     \<lparr>message = asc ''Invalid identifier or password'',
      stack = asc ''Error: Invalid identifier or password''\<rparr>"

definition exampleWorld :: world where
  "exampleWorld =
     \<lparr>BLUESKY_HANDLE = None,
      BSKY_USERNAME = Some (asc ''sayed.app''),
      BLUESKY_PASSWORD = Some [],
      BSKY_APP_PASSWORD = Some (asc ''abcd-efgh''),
      POST_TO_BLUESKY = Some (asc ''True''),
      ensureOutputDir = None,
      drawImage = (\<lambda>path. None),
      readFileSync = (\<lambda>path. Inr [137, 80, 78, 71, 13, 10, 26, 10]),
      login = (\<lambda>handle password. None),
      uploadBlob = (\<lambda>data encoding. Inr (asc ''bafkrei-1'')),
      detectFacets = (\<lambda>text. Inr []),
      post = (\<lambda>record. Inr (asc ''at://sayed.app/app.bsky.feed.post/1''))\<rparr>"

definition noNative :: "jsstring \<Rightarrow> jsstring" where
  "noNative name = asc ''function () { [native code] }''"

text \<open>A path and a time stamp as \<open>main\<close> passes them.\<close>

definition examplePath :: jsstring where
  "examplePath = asc ''/repo/output/bangla_date_2025-11-07_050000.png''"

definition exampleNow :: jsstring where
  "exampleNow = asc ''2025-11-07T23:00:00.123Z''"

text \<open>The example world with a login that throws.\<close>

definition loginFails :: world where
  "loginFails = exampleWorld\<lparr>login := (\<lambda>handle password. Some exampleError)\<rparr>"

text \<open>
  The scenario of section 8 of the specification: a required title, an optional region
  note of priority 2 and an optional hashtag block of priority 1; word characters as
  letters, digits, the underscore and everything beyond ASCII; and an image.
\<close>

definition exampleSegments :: "captionSegment list" where
  "exampleSegments =
     [\<lparr>seg_id = asc ''title'', seg_text = asc ''Today'' @ [0x27] @ asc ''s wallpaper'',
       priority = 0, kind = Required, isHashtagBlock = False\<rparr>,
      \<lparr>seg_id = asc ''region'', seg_text = asc '' '' @ [0x2014] @ asc '' Region: JP'',
       priority = 2, kind = Optional, isHashtagBlock = False\<rparr>,
      \<lparr>seg_id = asc ''hashtags'', seg_text = asc '' #Wallpaper #Photo'',
       priority = 1, kind = Optional, isHashtagBlock = True\<rparr>]"

definition exampleWordChar :: "nat \<Rightarrow> bool" where
  "exampleWordChar c \<longleftrightarrow>
     (0x30 \<le> c \<and> c \<le> 0x39) \<or> (0x41 \<le> c \<and> c \<le> 0x5A) \<or> c = 0x5F \<or>
     (0x61 \<le> c \<and> c \<le> 0x7A) \<or> 0x80 \<le> c"



definition exampleImage :: compressedImage where
  "exampleImage =
     \<lparr>image_bytes = [0xFF, 0xD8, 0xFF], mimeType = asc ''image/jpeg'', qualityUsed = 85,
      resized = False\<rparr>"

section \<open>Properties of utils.js\<close>

subsection \<open>Property reads on the tables\<close>

lemma getProp_own:
  "map_of obj key = Some v \<Longrightarrow> getProp obj key = Some (JStr v)"
  by (simp add: getProp_def)

lemma getProp_inherited:
  "key \<notin> fst ` set obj \<Longrightarrow> key \<in> set OBJECT_PROTOTYPE \<Longrightarrow> getProp obj key = Some (JInherited key)"
  by (simp add: getProp_def map_of_eq_None_iff [THEN iffD2])

lemma getProp_undefined:
  "key \<notin> fst ` set obj \<Longrightarrow> key \<notin> set OBJECT_PROTOTYPE \<Longrightarrow> getProp obj key = None"
  by (simp add: getProp_def map_of_eq_None_iff [THEN iffD2])

lemma upt_1_32:
  "[1..<32] = [1, 2, 3, 4, 5, 6, 7, 8, 9, 10, 11, 12, 13, 14, 15, 16, 17, 18, 19, 20, 21,
               22, 23, 24, 25, 26, 27, 28, 29, 30, 31 :: nat]"
  by (simp add: upt_rec)

lemma BANGLA_ORDINALS_by_rule:
  "BANGLA_ORDINALS = map (\<lambda>n. (banglaNumeral n, banglaNumeral n @ ruleSuffix n)) [1..<32]"
  unfolding upt_1_32 by (simp add: BANGLA_ORDINALS_def banglaNumeral_def ruleSuffix_def)

lemma map_of_BANGLA_ORDINALS_all:
  "\<forall>n \<in> set [1..<32].
     map_of BANGLA_ORDINALS (banglaNumeral n) = Some (banglaNumeral n @ ruleSuffix n)"
  unfolding upt_1_32 by (simp add: BANGLA_ORDINALS_def banglaNumeral_def ruleSuffix_def)

lemma map_of_BANGLA_ORDINALS:
  "1 \<le> n \<Longrightarrow> n \<le> 31 \<Longrightarrow>
   map_of BANGLA_ORDINALS (banglaNumeral n) = Some (banglaNumeral n @ ruleSuffix n)"
  using map_of_BANGLA_ORDINALS_all by simp

lemma BANGLA_ORDINALS_keys: "fst ` set BANGLA_ORDINALS = banglaNumeral ` {1..31}"
proof -
  have "fst ` set BANGLA_ORDINALS = banglaNumeral ` set [1..<32]"
    unfolding BANGLA_ORDINALS_by_rule by (simp add: image_image)
  also have "set [1..<32] = {1..31::nat}"
    by auto
  finally show ?thesis .
qed

subsection \<open>getBanglaOrdinal\<close>

text \<open>
  \<open>getBanglaOrdinal\<close> returns a value for every string. For each of the 31 days, written
  in Bengali digits, it returns the day with the suffix of the rule appended (one suffix
  for 1, one for 2 and 3, one for 4, one for 5 to 18, one for 19 to 31); the table has
  exactly these 31 keys. A string that is no key and names no member of \<open>Object.prototype\<close>
  comes back unchanged. A string that names such a member does not.
\<close>

lemma getBanglaOrdinal_on_days_and_other_strings:
  "(\<forall>n \<in> {1..31}. getBanglaOrdinal (banglaNumeral n) = JStr (banglaNumeral n @ ruleSuffix n)) \<and>
   (\<forall>s. s \<notin> banglaNumeral ` {1..31} \<and> s \<notin> set OBJECT_PROTOTYPE \<longrightarrow> getBanglaOrdinal s = JStr s) \<and>
   (\<forall>s. s \<in> set OBJECT_PROTOTYPE \<longrightarrow> getBanglaOrdinal s = JInherited s) \<and>
   length BANGLA_ORDINALS = 31 \<and> distinct (map fst BANGLA_ORDINALS)"
proof (intro conjI ballI allI impI)
  fix n :: nat
  assume "n \<in> {1..31}"
  then have "map_of BANGLA_ORDINALS (banglaNumeral n) = Some (banglaNumeral n @ ruleSuffix n)"
    by (simp add: map_of_BANGLA_ORDINALS)
  then have "getProp BANGLA_ORDINALS (banglaNumeral n) = Some (JStr (banglaNumeral n @ ruleSuffix n))"
    by (rule getProp_own)
  then show "getBanglaOrdinal (banglaNumeral n) = JStr (banglaNumeral n @ ruleSuffix n)"
    by (simp add: getBanglaOrdinal_def js_or_def banglaNumeral_def)
next
  fix s
  assume "s \<notin> banglaNumeral ` {1..31} \<and> s \<notin> set OBJECT_PROTOTYPE"
  then have "getProp BANGLA_ORDINALS s = None"
    by (simp add: getProp_undefined BANGLA_ORDINALS_keys)
  then show "getBanglaOrdinal s = JStr s"
    by (simp add: getBanglaOrdinal_def js_or_def)
next
  fix s
  assume "s \<in> set OBJECT_PROTOTYPE"
  moreover have "set OBJECT_PROTOTYPE \<inter> fst ` set BANGLA_ORDINALS = {}"
    by (simp add: OBJECT_PROTOTYPE_def BANGLA_ORDINALS_def asc_def)
  ultimately have "getProp BANGLA_ORDINALS s = Some (JInherited s)"
    by (intro getProp_inherited) auto
  then show "getBanglaOrdinal s = JInherited s"
    by (simp add: getBanglaOrdinal_def js_or_def)
next
  show "length BANGLA_ORDINALS = 31"
    by (simp add: BANGLA_ORDINALS_def)
next
  show "distinct (map fst BANGLA_ORDINALS)"
    by (simp add: BANGLA_ORDINALS_def)
qed

text \<open>
  Claim C9 says that \<open>getBanglaOrdinal\<close> returns every string other than the 31 days
  unchanged. The code breaks this at the string \<open>constructor\<close>, which is none of the 31
  keys: the read \<open>BANGLA_ORDINALS[banglaDate]\<close> has no own-property check and finds the
  member inherited from \<open>Object.prototype\<close>; it is truthy, so the fallback
  \<open>|| banglaDate\<close> is not reached and the function returns that member, not a string. A
  string such as \<open>23\<close> in ASCII digits, which names nothing, takes the fallback.
\<close>

theorem getBanglaOrdinal_returns_inherited_member:
  "asc ''constructor'' \<notin> fst ` set BANGLA_ORDINALS \<and>
   getBanglaOrdinal (asc ''constructor'') = JInherited (asc ''constructor'') \<and>
   getBanglaOrdinal (asc ''constructor'') \<noteq> JStr (asc ''constructor'') \<and>
   getBanglaOrdinal (asc ''23'') = JStr (asc ''23'')"
  by (simp add: getBanglaOrdinal_def getProp_def js_or_def BANGLA_ORDINALS_def
      OBJECT_PROTOTYPE_def asc_def)

subsection \<open>getBanglaSeason\<close>

text \<open>
  \<open>getBanglaSeason\<close> returns a value for every string. The table has twelve month names
  and six season names, and the months, taken in calendar order, map pair by pair to the
  six seasons: two consecutive months to each season. A string that is no month and names
  no member of \<open>Object.prototype\<close> gives the empty string. A string that names such a
  member does not.
\<close>

lemma getBanglaSeason_on_months_and_other_strings:
  "map getBanglaSeason BANGLA_MONTH_NAMES =
     concat (map (\<lambda>s. [JStr s, JStr s]) BANGLA_SEASON_NAMES) \<and>
   length BANGLA_MONTH_NAMES = 12 \<and> distinct BANGLA_MONTH_NAMES \<and>
   length BANGLA_SEASON_NAMES = 6 \<and> distinct BANGLA_SEASON_NAMES \<and>
   (\<forall>m. m \<notin> set BANGLA_MONTH_NAMES \<and> m \<notin> set OBJECT_PROTOTYPE \<longrightarrow> getBanglaSeason m = JStr []) \<and>
   (\<forall>m. m \<in> set OBJECT_PROTOTYPE \<longrightarrow> getBanglaSeason m = JInherited m)"
proof (intro conjI allI impI)
  show "map getBanglaSeason BANGLA_MONTH_NAMES =
     concat (map (\<lambda>s. [JStr s, JStr s]) BANGLA_SEASON_NAMES)"
    by (simp add: BANGLA_MONTH_NAMES_def BANGLA_SEASON_NAMES_def BANGLA_SEASONS_def
        getBanglaSeason_def getProp_def js_or_def)
next
  show "length BANGLA_MONTH_NAMES = 12"
    by (simp add: BANGLA_MONTH_NAMES_def BANGLA_SEASONS_def)
next
  show "distinct BANGLA_MONTH_NAMES"
    by (simp add: BANGLA_MONTH_NAMES_def BANGLA_SEASONS_def)
next
  show "length BANGLA_SEASON_NAMES = 6"
    by (simp add: BANGLA_SEASON_NAMES_def BANGLA_SEASONS_def)
next
  show "distinct BANGLA_SEASON_NAMES"
    by (simp add: BANGLA_SEASON_NAMES_def)
next
  fix m
  assume "m \<notin> set BANGLA_MONTH_NAMES \<and> m \<notin> set OBJECT_PROTOTYPE"
  then have "getProp BANGLA_SEASONS m = None"
    by (simp add: getProp_undefined BANGLA_MONTH_NAMES_def)
  then show "getBanglaSeason m = JStr []"
    by (simp add: getBanglaSeason_def js_or_def)
next
  fix m
  assume "m \<in> set OBJECT_PROTOTYPE"
  moreover have "set OBJECT_PROTOTYPE \<inter> fst ` set BANGLA_SEASONS = {}"
    by (simp add: OBJECT_PROTOTYPE_def BANGLA_SEASONS_def asc_def)
  ultimately have "getProp BANGLA_SEASONS m = Some (JInherited m)"
    by (intro getProp_inherited) auto
  then show "getBanglaSeason m = JInherited m"
    by (simp add: getBanglaSeason_def js_or_def)
qed

text \<open>
  Claim C10 says that \<open>getBanglaSeason\<close> returns the empty string for every string other
  than the twelve month names. The code breaks this at the string \<open>toString\<close>, which is
  none of the twelve keys: the read \<open>BANGLA_SEASONS[banglaMonth]\<close> has no own-property
  check and finds the member inherited from \<open>Object.prototype\<close>; it is truthy, so the
  fallback \<open>|| ''\<close> is not reached and the function returns that member, not a string.
  A string such as \<open>Kartik\<close> in Latin letters, which names nothing, takes the fallback.
\<close>

theorem getBanglaSeason_returns_inherited_member:
  "asc ''toString'' \<notin> fst ` set BANGLA_SEASONS \<and>
   getBanglaSeason (asc ''toString'') = JInherited (asc ''toString'') \<and>
   getBanglaSeason (asc ''toString'') \<noteq> JStr [] \<and>
   getBanglaSeason (asc ''Kartik'') = JStr []"
  by (simp add: getBanglaSeason_def getProp_def js_or_def BANGLA_SEASONS_def
      OBJECT_PROTOTYPE_def asc_def)

section \<open>Properties of index.js\<close>

subsection \<open>The steps of postToBluesky\<close>

lemma credentials_None_iff:
  "credentials w = None \<longleftrightarrow>
     (unset (BLUESKY_HANDLE w) \<and> unset (BSKY_USERNAME w)) \<or>
     (unset (BLUESKY_PASSWORD w) \<and> unset (BSKY_APP_PASSWORD w))"
  by (auto simp: credentials_def env_or_def unset_def split: option.splits if_splits)

lemma postToBluesky_no_credentials:
  "credentials w = None \<Longrightarrow>
   postToBluesky native w now path dt info =
     (False, [ConsoleLog MSG_POSTING, ConsoleWarn MSG_NO_CREDENTIALS, ConsoleLog MSG_SKIPPING])"
  by (simp add: postToBluesky_def)

text \<open>The \<open>try\<close> block ends in one of six ways; each fixes the trace.\<close>

lemma tryPost_cases:
  assumes "tryPost native w now h p path dt info = (r, t)"
  obtains
    (login_fails) e where "login w h p = Some e" "r = Some e" "t = [Login h p]"
  | (read_fails) e where "login w h p = None" "readFileSync w path = Inl e" "r = Some e"
      "t = [Login h p, ConsoleLog MSG_LOGGED_IN, ReadFile path]"
  | (upload_fails) buf e where "login w h p = None" "readFileSync w path = Inr buf"
      "uploadBlob w buf IMAGE_PNG = Inl e" "r = Some e"
      "t = [Login h p, ConsoleLog MSG_LOGGED_IN, ReadFile path, UploadBlob buf IMAGE_PNG]"
  | (detect_fails) buf blob e where "login w h p = None" "readFileSync w path = Inr buf"
      "uploadBlob w buf IMAGE_PNG = Inr blob"
      "detectFacets w (postText native info dt) = Inl e" "r = Some e"
      "t = [Login h p, ConsoleLog MSG_LOGGED_IN, ReadFile path, UploadBlob buf IMAGE_PNG,
            ConsoleLog MSG_UPLOADED, DetectFacets (postText native info dt)]"
  | (post_fails) buf blob fs e where "login w h p = None" "readFileSync w path = Inr buf"
      "uploadBlob w buf IMAGE_PNG = Inr blob"
      "detectFacets w (postText native info dt) = Inr fs"
      "post w (recordOf native now dt info blob fs) = Inl e" "r = Some e"
      "t = [Login h p, ConsoleLog MSG_LOGGED_IN, ReadFile path, UploadBlob buf IMAGE_PNG,
            ConsoleLog MSG_UPLOADED, DetectFacets (postText native info dt),
            CreatePost (recordOf native now dt info blob fs)]"
  | (posted) buf blob fs uri where "login w h p = None" "readFileSync w path = Inr buf"
      "uploadBlob w buf IMAGE_PNG = Inr blob"
      "detectFacets w (postText native info dt) = Inr fs"
      "post w (recordOf native now dt info blob fs) = Inr uri" "r = None"
      "t = [Login h p, ConsoleLog MSG_LOGGED_IN, ReadFile path, UploadBlob buf IMAGE_PNG,
            ConsoleLog MSG_UPLOADED, DetectFacets (postText native info dt),
            CreatePost (recordOf native now dt info blob fs),
            ConsoleLog (MSG_POSTED @ uri)]"
  using assms unfolding tryPost_def Let_def recordOf_def
  by (auto split: option.splits sum.splits)

lemma postToBluesky_with_credentials:
  assumes "credentials w = Some (h, p)"
    and "tryPost native w now h p path dt info = (r, t)"
  shows "postToBluesky native w now path dt info =
     (case r of
        None \<Rightarrow> (True, ConsoleLog MSG_POSTING # t)
      | Some e \<Rightarrow>
          (False, ConsoleLog MSG_POSTING # t @
             [ConsoleError (MSG_POST_ERROR @ message e), ConsoleError (stack e)]))"
  using assms by (simp add: postToBluesky_def split: option.splits)

subsection \<open>Missing credentials\<close>

text \<open>
  Claim C8. If the handle is missing (\<open>BLUESKY_HANDLE\<close> and its fallback \<open>BSKY_USERNAME\<close>
  are both unset or empty) or the password is (\<open>BLUESKY_PASSWORD\<close> and
  \<open>BSKY_APP_PASSWORD\<close> likewise), \<open>postToBluesky\<close> returns \<open>false\<close> at once: it prints its
  three lines and makes no call on the client, neither login nor upload nor post, and
  does not read the image file.
\<close>

theorem postToBluesky_missing_credentials:
  assumes "(unset (BLUESKY_HANDLE w) \<and> unset (BSKY_USERNAME w)) \<or>
           (unset (BLUESKY_PASSWORD w) \<and> unset (BSKY_APP_PASSWORD w))"
  shows "postToBluesky native w now imagePath dateText info =
           (False, [ConsoleLog MSG_POSTING, ConsoleWarn MSG_NO_CREDENTIALS, ConsoleLog MSG_SKIPPING]) \<and>
         filter isNetwork (snd (postToBluesky native w now imagePath dateText info)) = [] \<and>
         ReadFile imagePath \<notin> set (snd (postToBluesky native w now imagePath dateText info))"
proof -
  from assms have "credentials w = None"
    by (simp add: credentials_None_iff)
  then show ?thesis
    by (simp add: postToBluesky_no_credentials)
qed

text \<open>The example world with the app password taken away.\<close>

theorem postToBluesky_missing_credentials_witness:
  "unset (BLUESKY_PASSWORD (exampleWorld\<lparr>BSKY_APP_PASSWORD := None\<rparr>)) \<and>
   unset (BSKY_APP_PASSWORD (exampleWorld\<lparr>BSKY_APP_PASSWORD := None\<rparr>)) \<and>
   fst (postToBluesky noNative (exampleWorld\<lparr>BSKY_APP_PASSWORD := None\<rparr>) (asc ''2025-11-07T23:00:00.000Z'')
     (asc ''output/bangla_date.png'') (captionDateText noNative (getBanglaDateInfo exampleCalendar))
     (getBanglaDateInfo exampleCalendar)) = False \<and>
   filter isNetwork (snd (postToBluesky noNative (exampleWorld\<lparr>BSKY_APP_PASSWORD := None\<rparr>) (asc ''2025-11-07T23:00:00.000Z'')
     (asc ''output/bangla_date.png'') (captionDateText noNative (getBanglaDateInfo exampleCalendar))
     (getBanglaDateInfo exampleCalendar))) = []"
proof -
  have u: "unset (BLUESKY_PASSWORD (exampleWorld\<lparr>BSKY_APP_PASSWORD := None\<rparr>)) \<and>
           unset (BSKY_APP_PASSWORD (exampleWorld\<lparr>BSKY_APP_PASSWORD := None\<rparr>))"
    by (simp add: exampleWorld_def unset_def)
  then have "(unset (BLUESKY_HANDLE (exampleWorld\<lparr>BSKY_APP_PASSWORD := None\<rparr>)) \<and>
              unset (BSKY_USERNAME (exampleWorld\<lparr>BSKY_APP_PASSWORD := None\<rparr>))) \<or>
             (unset (BLUESKY_PASSWORD (exampleWorld\<lparr>BSKY_APP_PASSWORD := None\<rparr>)) \<and>
              unset (BSKY_APP_PASSWORD (exampleWorld\<lparr>BSKY_APP_PASSWORD := None\<rparr>)))"
    by simp
  from postToBluesky_missing_credentials [OF this] u show ?thesis
    by simp
qed

subsection \<open>One upload, then one post\<close>

text \<open>
  Claim C1, as the code has it. What a run calls on the client is fixed by where it stops.
  Without credentials it calls nothing. With them it logs in; if login throws, or the file
  read after it does, that is all, and no upload is made. Otherwise it calls \<open>uploadBlob\<close>
  exactly once, with the bytes of the one image file; if the upload throws, it stops
  there. After the upload it detects the facets of the post text, and if that succeeds it
  calls \<open>agent.post\<close> exactly once, with the record that embeds the uploaded blob. The run
  is successful exactly when that post returns. So no run uploads or posts twice, the
  upload has returned before the post is issued, and no post is issued when login or the
  upload fails.
\<close>

theorem postToBluesky_calls_in_order:
  assumes run: "postToBluesky native w now imagePath dateText info = (ok, t)"
    and the_text: "txt = postText native info dateText"
    and the_record: "pr = recordOf native now dateText info blob fs"
  shows
   "(credentials w = None \<longrightarrow> \<not> ok \<and> filter isNetwork t = []) \<and>
    (credentials w = Some (h, p) \<longrightarrow>
       (login w h p = Some e \<longrightarrow> \<not> ok \<and> filter isNetwork t = [Login h p]) \<and>
       (login w h p = None \<longrightarrow>
          (readFileSync w imagePath = Inl e \<longrightarrow> \<not> ok \<and> filter isNetwork t = [Login h p]) \<and>
          (readFileSync w imagePath = Inr buf \<longrightarrow>
             (uploadBlob w buf IMAGE_PNG = Inl e \<longrightarrow>
                \<not> ok \<and> filter isNetwork t = [Login h p, UploadBlob buf IMAGE_PNG]) \<and>
             (uploadBlob w buf IMAGE_PNG = Inr blob \<longrightarrow>
                (detectFacets w txt = Inl e \<longrightarrow>
                   \<not> ok \<and>
                   filter isNetwork t = [Login h p, UploadBlob buf IMAGE_PNG, DetectFacets txt]) \<and>
                (detectFacets w txt = Inr fs \<longrightarrow>
                   (post w pr = Inl e \<longrightarrow>
                      \<not> ok \<and>
                      filter isNetwork t =
                        [Login h p, UploadBlob buf IMAGE_PNG, DetectFacets txt, CreatePost pr]) \<and>
                   (post w pr = Inr uri \<longrightarrow>
                      ok \<and>
                      filter isNetwork t =
                        [Login h p, UploadBlob buf IMAGE_PNG, DetectFacets txt, CreatePost pr]))))))"
proof (cases "credentials w")
  case None
  with run show ?thesis
    by (auto simp: postToBluesky_no_credentials)
next
  case (Some c)
  obtain h' p' where c: "c = (h', p')"
    by (cases c)
  obtain r t' where tp: "tryPost native w now h' p' imagePath dateText info = (r, t')"
    by (cases "tryPost native w now h' p' imagePath dateText info")
  note post = postToBluesky_with_credentials [OF Some [unfolded c] tp]
  from tp show ?thesis
    by (cases rule: tryPost_cases) (use run post Some c the_text the_record in auto)
qed

text \<open>
  A run in which every step succeeds: path and time stamp as \<open>main\<close> passes them, the
  date text of the example.
\<close>

theorem postToBluesky_calls_in_order_witness:
  "credentials exampleWorld = Some (asc ''sayed.app'', asc ''abcd-efgh'') \<and>
   login exampleWorld (asc ''sayed.app'') (asc ''abcd-efgh'') = None \<and>
   readFileSync exampleWorld examplePath = Inr [137, 80, 78, 71, 13, 10, 26, 10] \<and>
   uploadBlob exampleWorld [137, 80, 78, 71, 13, 10, 26, 10] IMAGE_PNG = Inr (asc ''bafkrei-1'') \<and>
   fst (postToBluesky noNative exampleWorld exampleNow examplePath
          (captionDateText noNative (getBanglaDateInfo exampleCalendar))
          (getBanglaDateInfo exampleCalendar)) \<and>
   filter isNetwork (snd (postToBluesky noNative exampleWorld exampleNow examplePath
          (captionDateText noNative (getBanglaDateInfo exampleCalendar))
          (getBanglaDateInfo exampleCalendar))) =
     [Login (asc ''sayed.app'') (asc ''abcd-efgh''),
      UploadBlob [137, 80, 78, 71, 13, 10, 26, 10] IMAGE_PNG,
      DetectFacets (postText noNative (getBanglaDateInfo exampleCalendar)
          (captionDateText noNative (getBanglaDateInfo exampleCalendar))),
      CreatePost (recordOf noNative exampleNow
          (captionDateText noNative (getBanglaDateInfo exampleCalendar))
          (getBanglaDateInfo exampleCalendar) (asc ''bafkrei-1'') [])]"
proof -
  let ?dt = "captionDateText noNative (getBanglaDateInfo exampleCalendar)"
  let ?info = "getBanglaDateInfo exampleCalendar"
  let ?run = "postToBluesky noNative exampleWorld exampleNow examplePath ?dt ?info"
  have c: "credentials exampleWorld = Some (asc ''sayed.app'', asc ''abcd-efgh'')"
    by (simp add: credentials_def env_or_def exampleWorld_def asc_def)
  have w: "login exampleWorld (asc ''sayed.app'') (asc ''abcd-efgh'') = None"
    "readFileSync exampleWorld examplePath = Inr [137, 80, 78, 71, 13, 10, 26, 10]"
    "uploadBlob exampleWorld [137, 80, 78, 71, 13, 10, 26, 10] IMAGE_PNG = Inr (asc ''bafkrei-1'')"
    "detectFacets exampleWorld (postText noNative ?info ?dt) = Inr []"
    "post exampleWorld (recordOf noNative exampleNow ?dt ?info (asc ''bafkrei-1'') []) =
       Inr (asc ''at://sayed.app/app.bsky.feed.post/1'')"
    by (simp_all add: exampleWorld_def)
  have run: "?run = (fst ?run, snd ?run)"
    by simp
  from postToBluesky_calls_in_order [OF run refl refl,
      where blob = "asc ''bafkrei-1''" and fs = "[]" and h = "asc ''sayed.app''"
        and p = "asc ''abcd-efgh''" and buf = "[137, 80, 78, 71, 13, 10, 26, 10]"
        and uri = "asc ''at://sayed.app/app.bsky.feed.post/1''"] c w
  show ?thesis
    by simp
qed

text \<open>
  A run with one image that calls \<open>uploadBlob\<close> not once but never: its login throws.
\<close>

theorem postToBluesky_failed_login_uploads_nothing_counterexample:
  "credentials loginFails = Some (asc ''sayed.app'', asc ''abcd-efgh'') \<and>
   login loginFails (asc ''sayed.app'') (asc ''abcd-efgh'') = Some exampleError \<and>
   postToBluesky noNative loginFails exampleNow examplePath
     (captionDateText noNative (getBanglaDateInfo exampleCalendar))
     (getBanglaDateInfo exampleCalendar) =
     (False, [ConsoleLog MSG_POSTING, Login (asc ''sayed.app'') (asc ''abcd-efgh''),
              ConsoleError (MSG_POST_ERROR @ message exampleError),
              ConsoleError (stack exampleError)]) \<and>
   filter isUpload (snd (postToBluesky noNative loginFails exampleNow examplePath
     (captionDateText noNative (getBanglaDateInfo exampleCalendar))
     (getBanglaDateInfo exampleCalendar))) = []"
  by (simp add: postToBluesky_def credentials_def env_or_def tryPost_def loginFails_def
      exampleWorld_def Let_def asc_def)

text \<open>The run of the example world: every step succeeds.\<close>

lemma exampleWorld_run:
  "postToBluesky native exampleWorld now path dt info =
     (True,
      [ConsoleLog MSG_POSTING, Login (asc ''sayed.app'') (asc ''abcd-efgh''),
       ConsoleLog MSG_LOGGED_IN, ReadFile path,
       UploadBlob [137, 80, 78, 71, 13, 10, 26, 10] IMAGE_PNG, ConsoleLog MSG_UPLOADED,
       DetectFacets (postText native info dt),
       CreatePost (recordOf native now dt info (asc ''bafkrei-1'') []),
       ConsoleLog (MSG_POSTED @ asc ''at://sayed.app/app.bsky.feed.post/1'')])"
  by (simp add: postToBluesky_def credentials_def env_or_def tryPost_def exampleWorld_def Let_def
      recordOf_def asc_def)

subsection \<open>What is uploaded, and what is posted\<close>

text \<open>
  \<open>postToBluesky\<close> has no compression step and no size check: what it passes to
  \<open>uploadBlob\<close> is what it read from the image file, sent as \<open>image/png\<close>.
\<close>

lemma postToBluesky_upload:
  assumes "UploadBlob buf m \<in> set (snd (postToBluesky native w now path dt info))"
  shows "readFileSync w path = Inr buf \<and> m = IMAGE_PNG"
proof (cases "credentials w")
  case None
  with assms show ?thesis
    by (simp add: postToBluesky_no_credentials)
next
  case (Some c)
  obtain h p where c: "c = (h, p)"
    by (cases c)
  obtain r t where tp: "tryPost native w now h p path dt info = (r, t)"
    by (cases "tryPost native w now h p path dt info")
  note post = postToBluesky_with_credentials [OF Some [unfolded c] tp]
  from tp show ?thesis
    by (cases rule: tryPost_cases) (use assms post in auto)
qed

lemma postToBluesky_post:
  assumes "CreatePost pr \<in> set (snd (postToBluesky native w now path dt info))"
  shows "\<exists>buf blob fs. readFileSync w path = Inr buf \<and> uploadBlob w buf IMAGE_PNG = Inr blob \<and>
           detectFacets w (postText native info dt) = Inr fs \<and>
           pr = recordOf native now dt info blob fs"
proof (cases "credentials w")
  case None
  with assms show ?thesis
    by (simp add: postToBluesky_no_credentials)
next
  case (Some c)
  obtain h p where c: "c = (h, p)"
    by (cases c)
  obtain r t where tp: "tryPost native w now h p path dt info = (r, t)"
    by (cases "tryPost native w now h p path dt info")
  note post = postToBluesky_with_credentials [OF Some [unfolded c] tp]
  from tp show ?thesis
    by (cases rule: tryPost_cases) (use assms post in auto)
qed

subsection \<open>main\<close>

lemma main_exit_status:
  "fst (main native w cal now outputPath) =
     (if ensureOutputDir w = None \<and> drawImage w outputPath = None then 0 else 1)"
  by (auto simp: main_def createBanglaDateImage_def Let_def split: option.splits)

lemma main_trace:
  assumes "ensureOutputDir w = None" "drawImage w outputPath = None" "shouldPost w"
  shows "snd (main native w cal now outputPath) =
     [ConsoleLog MSG_STARTING, ConsoleLog ([0xA] @ MSG_POSTING)] @
     snd (postToBluesky native w now outputPath
            (captionDateText native (getBanglaDateInfo cal)) (getBanglaDateInfo cal)) @
     [ConsoleLog MSG_DONE]"
  using assms by (simp add: main_def createBanglaDateImage_def Let_def)

lemma main_post:
  assumes "CreatePost pr \<in> set (snd (main native w cal now outputPath))"
  shows "CreatePost pr \<in> set (snd (postToBluesky native w now outputPath
            (captionDateText native (getBanglaDateInfo cal)) (getBanglaDateInfo cal)))"
  using assms
  by (auto simp: main_def createBanglaDateImage_def Let_def split: option.splits if_splits)

subsection \<open>A failing step\<close>

text \<open>
  Claim C3, as the code has it. The process ends with status 1 exactly when preparing the
  output directory or creating the image throws, and with status 0 otherwise. If login,
  the blob upload or the creation of the post throws, \<open>postToBluesky\<close> catches the error,
  prints a line with the error's message and a line with its stack on the error console,
  and returns \<open>false\<close>; nothing is rethrown. \<open>main\<close> does not read that result: the run
  prints its last line and ends with status 0.
\<close>

theorem main_posting_failure_is_logged_not_fatal:
  "fst (main native w cal now outputPath) =
     (if ensureOutputDir w = None \<and> drawImage w outputPath = None then 0 else 1) \<and>
   (credentials w = Some (h, p) \<and>
    info = getBanglaDateInfo cal \<and> dateText = captionDateText native info \<and>
    (login w h p = Some e \<or>
     (login w h p = None \<and> readFileSync w outputPath = Inr buf \<and>
      (uploadBlob w buf IMAGE_PNG = Inl e \<or>
       (uploadBlob w buf IMAGE_PNG = Inr blob \<and>
        detectFacets w (postText native info dateText) = Inr fs \<and>
        post w (recordOf native now dateText info blob fs) = Inl e)))) \<longrightarrow>
    fst (postToBluesky native w now outputPath dateText info) = False \<and>
    (\<exists>t. snd (postToBluesky native w now outputPath dateText info) =
       t @ [ConsoleError (MSG_POST_ERROR @ message e), ConsoleError (stack e)]) \<and>
    (ensureOutputDir w = None \<and> drawImage w outputPath = None \<and> shouldPost w \<longrightarrow>
       fst (main native w cal now outputPath) = 0 \<and>
       ConsoleError (MSG_POST_ERROR @ message e) \<in> set (snd (main native w cal now outputPath)) \<and>
       ConsoleError (stack e) \<in> set (snd (main native w cal now outputPath)) \<and>
       last (snd (main native w cal now outputPath)) = ConsoleLog MSG_DONE))"
proof (intro conjI impI)
  show "fst (main native w cal now outputPath) =
     (if ensureOutputDir w = None \<and> drawImage w outputPath = None then 0 else 1)"
    by (rule main_exit_status)
next
  assume a: "credentials w = Some (h, p) \<and>
    info = getBanglaDateInfo cal \<and> dateText = captionDateText native info \<and>
    (login w h p = Some e \<or>
     (login w h p = None \<and> readFileSync w outputPath = Inr buf \<and>
      (uploadBlob w buf IMAGE_PNG = Inl e \<or>
       (uploadBlob w buf IMAGE_PNG = Inr blob \<and>
        detectFacets w (postText native info dateText) = Inr fs \<and>
        post w (recordOf native now dateText info blob fs) = Inl e))))"
  then have creds: "credentials w = Some (h, p)"
    by simp
  obtain r t where tp: "tryPost native w now h p outputPath dateText info = (r, t)"
    by (cases "tryPost native w now h p outputPath dateText info")
  from tp a have r: "r = Some e"
    by (cases rule: tryPost_cases) auto
  from postToBluesky_with_credentials [OF creds tp] r
  have run: "postToBluesky native w now outputPath dateText info =
      (False, (ConsoleLog MSG_POSTING # t) @
         [ConsoleError (MSG_POST_ERROR @ message e), ConsoleError (stack e)])"
    by simp
  show "fst (postToBluesky native w now outputPath dateText info) = False"
    by (simp add: run)
  show "\<exists>t. snd (postToBluesky native w now outputPath dateText info) =
       t @ [ConsoleError (MSG_POST_ERROR @ message e), ConsoleError (stack e)]"
    unfolding run snd_conv by (rule exI) (rule refl)
  assume b: "ensureOutputDir w = None \<and> drawImage w outputPath = None \<and> shouldPost w"
  then show "fst (main native w cal now outputPath) = 0"
    by (simp add: main_exit_status)
  from a b have tr: "snd (main native w cal now outputPath) =
     [ConsoleLog MSG_STARTING, ConsoleLog ([0xA] @ MSG_POSTING)] @
     snd (postToBluesky native w now outputPath dateText info) @ [ConsoleLog MSG_DONE]"
    by (simp add: main_trace)
  show "ConsoleError (MSG_POST_ERROR @ message e) \<in> set (snd (main native w cal now outputPath))"
    by (simp add: tr run)
  show "ConsoleError (stack e) \<in> set (snd (main native w cal now outputPath))"
    by (simp add: tr run)
  show "last (snd (main native w cal now outputPath)) = ConsoleLog MSG_DONE"
    by (simp add: tr)
qed

text \<open>
  A run whose login throws: the error is printed, and the exit status is 0.
\<close>

theorem main_posting_failure_exits_zero_counterexample:
  "credentials loginFails = Some (asc ''sayed.app'', asc ''abcd-efgh'') \<and>
   login loginFails (asc ''sayed.app'') (asc ''abcd-efgh'') = Some exampleError \<and>
   shouldPost loginFails \<and>
   main noNative loginFails exampleCalendar (asc ''2025-11-07T23:00:00.000Z'') (asc ''out.png'') =
     (0, [ConsoleLog MSG_STARTING, ConsoleLog ([0xA] @ MSG_POSTING), ConsoleLog MSG_POSTING,
          Login (asc ''sayed.app'') (asc ''abcd-efgh''),
          ConsoleError (MSG_POST_ERROR @ message exampleError), ConsoleError (stack exampleError),
          ConsoleLog MSG_DONE])"
  by (simp add: main_def createBanglaDateImage_def shouldPost_def toLowerCase_def
      postToBluesky_def credentials_def env_or_def tryPost_def loginFails_def exampleWorld_def
      Let_def asc_def)

text \<open>The same run, read off the theorem.\<close>

theorem main_posting_failure_is_logged_not_fatal_witness:
  "login loginFails (asc ''sayed.app'') (asc ''abcd-efgh'') = Some exampleError \<and>
   fst (postToBluesky noNative loginFails [] (asc ''out.png'')
          (captionDateText noNative (getBanglaDateInfo exampleCalendar))
          (getBanglaDateInfo exampleCalendar)) = False \<and>
   fst (main noNative loginFails exampleCalendar [] (asc ''out.png'')) = 0 \<and>
   ConsoleError (MSG_POST_ERROR @ message exampleError)
     \<in> set (snd (main noNative loginFails exampleCalendar [] (asc ''out.png'')))"
proof -
  have c: "credentials loginFails = Some (asc ''sayed.app'', asc ''abcd-efgh'')"
    by (simp add: credentials_def env_or_def loginFails_def exampleWorld_def asc_def)
  have l: "login loginFails (asc ''sayed.app'') (asc ''abcd-efgh'') = Some exampleError"
    by (simp add: loginFails_def exampleWorld_def)
  have d: "ensureOutputDir loginFails = None \<and> drawImage loginFails (asc ''out.png'') = None \<and>
      shouldPost loginFails"
    by (simp add: loginFails_def exampleWorld_def shouldPost_def toLowerCase_def asc_def)
  from main_posting_failure_is_logged_not_fatal [of noNative loginFails exampleCalendar "[]"
      "asc ''out.png''" "asc ''sayed.app''" "asc ''abcd-efgh''"
      "getBanglaDateInfo exampleCalendar"
      "captionDateText noNative (getBanglaDateInfo exampleCalendar)" exampleError] c l d
  show ?thesis
    by simp
qed

subsection \<open>The length of the post text\<close>

lemma length_captionDateText:
  "length (captionDateText native info) =
     length (interpolate native (date info)) + length (month info) + length (year info) + 28"
  by (simp add: captionDateText_def BONGABDO_def asc_def)

lemma length_postText:
  "length (postText native info dt) =
     length (weekday info) + length dt + length (interpolate native (season info)) + 170"
  by (simp add: postText_def POST_OPENING_def POST_AFTER_WEEKDAY_def POST_BEFORE_SEASON_def
      POST_CLOSING_def asc_def)

lemma getBanglaOrdinal_day:
  assumes "n \<in> {1..31}"
  shows "getBanglaOrdinal (banglaNumeral n) = JStr (banglaNumeral n @ ruleSuffix n)"
proof -
  from assms have "map_of BANGLA_ORDINALS (banglaNumeral n) = Some (banglaNumeral n @ ruleSuffix n)"
    by (simp add: map_of_BANGLA_ORDINALS)
  then have "getProp BANGLA_ORDINALS (banglaNumeral n) = Some (JStr (banglaNumeral n @ ruleSuffix n))"
    by (rule getProp_own)
  then show ?thesis
    by (simp add: getBanglaOrdinal_def js_or_def banglaNumeral_def)
qed

lemma ordinal_length:
  assumes "d \<notin> set OBJECT_PROTOTYPE"
  shows "\<exists>v. getBanglaOrdinal d = JStr v \<and> length v \<le> length d + 2"
proof (cases "d \<in> fst ` set BANGLA_ORDINALS")
  case True
  then obtain n where n: "n \<in> {1..31}" "d = banglaNumeral n"
    unfolding BANGLA_ORDINALS_keys by blast
  have "length (banglaNumeral n @ ruleSuffix n) \<le> length (banglaNumeral n) + 2"
    by (simp add: ruleSuffix_def)
  with getBanglaOrdinal_day [OF n(1)] n(2) show ?thesis
    by blast
next
  case False
  with assms have "getProp BANGLA_ORDINALS d = None"
    by (simp add: getProp_undefined)
  then show ?thesis
    by (simp add: getBanglaOrdinal_def js_or_def)
qed

lemma table_day_length: "d \<in> fst ` set BANGLA_ORDINALS \<Longrightarrow> length d \<le> 2 \<and> d \<notin> set OBJECT_PROTOTYPE"
  by (auto simp: BANGLA_ORDINALS_def OBJECT_PROTOTYPE_def asc_def)

lemma table_month_length:
  "m \<in> set BANGLA_MONTH_NAMES \<Longrightarrow> length m \<le> 9 \<and> m \<notin> set OBJECT_PROTOTYPE"
  by (auto simp: BANGLA_MONTH_NAMES_def BANGLA_SEASONS_def OBJECT_PROTOTYPE_def asc_def)

lemma season_length_all:
  "\<forall>m \<in> set BANGLA_MONTH_NAMES. \<exists>s. getBanglaSeason m = JStr s \<and> length s \<le> 7"
  by (simp add: BANGLA_MONTH_NAMES_def BANGLA_SEASONS_def getBanglaSeason_def getProp_def js_or_def)

lemma season_length:
  assumes "m \<notin> set OBJECT_PROTOTYPE"
  shows "\<exists>s. getBanglaSeason m = JStr s \<and> length s \<le> 7"
proof (cases "m \<in> set BANGLA_MONTH_NAMES")
  case True
  with season_length_all show ?thesis
    by blast
next
  case False
  with assms have "getProp BANGLA_SEASONS m = None"
    by (simp add: getProp_undefined BANGLA_MONTH_NAMES_def)
  then show ?thesis
    by (simp add: getBanglaSeason_def js_or_def)
qed

text \<open>
  Claim C4. The post text has at most 300 code units, and so at most 300 characters, for
  every day of the ordinal table and every month of the season table, with the season
  \<open>getBanglaSeason\<close> gives for the month, and every weekday and year that together have
  at most 82 code units (a weekday name of the calendar has at most 12, a year 4). More
  generally it holds whenever day and month name no inherited member and weekday, day,
  month and year together have at most 93 code units. Every post \<open>main\<close> creates carries
  exactly this text. The fixed part of the text, hashtags included, has 198 code units.
\<close>

theorem postText_within_caption_ceiling:
  assumes inputs:
    "(banglaDay cal \<in> fst ` set BANGLA_ORDINALS \<and> banglaMonth cal \<in> set BANGLA_MONTH_NAMES \<and>
      length (banglaWeekday cal) + length (banglaYear cal) \<le> 82) \<or>
     (banglaDay cal \<notin> set OBJECT_PROTOTYPE \<and> banglaMonth cal \<notin> set OBJECT_PROTOTYPE \<and>
      length (banglaWeekday cal) + length (banglaDay cal) + length (banglaMonth cal) +
      length (banglaYear cal) \<le> 93)"
  shows "length (postText native (getBanglaDateInfo cal)
                   (captionDateText native (getBanglaDateInfo cal))) \<le> 300 \<and>
         (\<forall>pr. CreatePost pr \<in> set (snd (main native w cal now outputPath)) \<longrightarrow>
            post_text pr = postText native (getBanglaDateInfo cal)
                             (captionDateText native (getBanglaDateInfo cal)) \<and>
            length (post_text pr) \<le> 300)"
proof -
  let ?info = "getBanglaDateInfo cal"
  have "banglaDay cal \<notin> set OBJECT_PROTOTYPE \<and> banglaMonth cal \<notin> set OBJECT_PROTOTYPE \<and>
      length (banglaWeekday cal) + length (banglaDay cal) + length (banglaMonth cal) +
      length (banglaYear cal) \<le> 93"
    using inputs
  proof
    assume t: "banglaDay cal \<in> fst ` set BANGLA_ORDINALS \<and>
      banglaMonth cal \<in> set BANGLA_MONTH_NAMES \<and>
      length (banglaWeekday cal) + length (banglaYear cal) \<le> 82"
    then have "length (banglaDay cal) \<le> 2 \<and> banglaDay cal \<notin> set OBJECT_PROTOTYPE"
      and "length (banglaMonth cal) \<le> 9 \<and> banglaMonth cal \<notin> set OBJECT_PROTOTYPE"
      by (simp_all add: table_day_length table_month_length)
    with t show ?thesis
      by simp
  qed
  then have day: "banglaDay cal \<notin> set OBJECT_PROTOTYPE"
    and month: "banglaMonth cal \<notin> set OBJECT_PROTOTYPE"
    and total: "length (banglaWeekday cal) + length (banglaDay cal) + length (banglaMonth cal) +
      length (banglaYear cal) \<le> 93"
    by simp_all
  from ordinal_length [OF day] obtain v where
    v: "getBanglaOrdinal (banglaDay cal) = JStr v" "length v \<le> length (banglaDay cal) + 2"
    by blast
  from season_length [OF month] obtain s where
    s: "getBanglaSeason (banglaMonth cal) = JStr s" "length s \<le> 7"
    by blast
  have "length (postText native ?info (captionDateText native ?info)) =
      length (banglaWeekday cal) + length (banglaYear cal) + length v + length (banglaMonth cal) +
      length s + 198"
    by (simp add: length_postText length_captionDateText getBanglaDateInfo_def interpolate_def v s)
  with v s total have bound: "length (postText native ?info (captionDateText native ?info)) \<le> 300"
    by simp
  have "post_text pr = postText native ?info (captionDateText native ?info)"
    if "CreatePost pr \<in> set (snd (main native w cal now outputPath))" for pr
    using postToBluesky_post [OF main_post [OF that]] by (auto simp: recordOf_def)
  with bound show ?thesis
    by simp
qed

text \<open>The date of the example: 227 code units.\<close>

theorem postText_within_caption_ceiling_witness:
  "banglaDay exampleCalendar \<in> fst ` set BANGLA_ORDINALS \<and>
   banglaMonth exampleCalendar \<in> set BANGLA_MONTH_NAMES \<and>
   length (banglaWeekday exampleCalendar) + length (banglaYear exampleCalendar) \<le> 82 \<and>
   length (postText noNative (getBanglaDateInfo exampleCalendar)
             (captionDateText noNative (getBanglaDateInfo exampleCalendar))) = 227 \<and>
   length (postText noNative (getBanglaDateInfo exampleCalendar)
             (captionDateText noNative (getBanglaDateInfo exampleCalendar))) \<le> 300"
proof -
  have d: "banglaDay exampleCalendar \<in> fst ` set BANGLA_ORDINALS"
    by (simp add: exampleCalendar_def BANGLA_ORDINALS_def)
  have m: "banglaMonth exampleCalendar \<in> set BANGLA_MONTH_NAMES"
    by (simp add: exampleCalendar_def BANGLA_MONTH_NAMES_def BANGLA_SEASONS_def)
  have r: "length (banglaWeekday exampleCalendar) + length (banglaYear exampleCalendar) \<le> 82"
    by (simp add: exampleCalendar_def)
  have "length (postText noNative (getBanglaDateInfo exampleCalendar)
             (captionDateText noNative (getBanglaDateInfo exampleCalendar))) = 227"
    by (simp add: length_postText length_captionDateText getBanglaDateInfo_def interpolate_def
        exampleCalendar_def getBanglaOrdinal_def getBanglaSeason_def getProp_def js_or_def
        BANGLA_ORDINALS_def BANGLA_SEASONS_def)
  moreover from d m r have "length (postText noNative (getBanglaDateInfo exampleCalendar)
             (captionDateText noNative (getBanglaDateInfo exampleCalendar))) \<le> 300"
    using postText_within_caption_ceiling [of exampleCalendar noNative] by blast
  ultimately show ?thesis
    using d m r by blast
qed

section \<open>Properties of the caption builder and the assembler of the specification\<close>

text \<open>The equation of the loop is unfolded by hand only.\<close>

declare keptSegments.simps [simp del]

subsection \<open>One removal\<close>

lemma highest_mem: "ps \<noteq> [] \<Longrightarrow> highest ps \<in> set ps"
  by (induction ps rule: highest.induct) (auto simp: max_def)

lemma highest_ge: "p \<in> set ps \<Longrightarrow> p \<le> highest ps"
  by (induction ps rule: highest.induct) (auto simp: max_def)

lemma removeFirst_split:
  "\<exists>x \<in> set xs. P x \<Longrightarrow>
   \<exists>pre s post. xs = pre @ s # post \<and> removeFirst P xs = pre @ post \<and> P s \<and> (\<forall>x \<in> set pre. \<not> P x)"
proof (induction xs)
  case Nil
  then show ?case by simp
next
  case (Cons a xs)
  show ?case
  proof (cases "P a")
    case True
    then have "a # xs = [] @ a # xs \<and> removeFirst P (a # xs) = [] @ xs \<and> P a \<and> (\<forall>x \<in> set []. \<not> P x)"
      by simp
    then show ?thesis by blast
  next
    case False
    with Cons.prems have "\<exists>x \<in> set xs. P x"
      by auto
    from Cons.IH [OF this] obtain pre s post where
      "xs = pre @ s # post" "removeFirst P xs = pre @ post" "P s" "\<forall>x \<in> set pre. \<not> P x"
      by blast
    with False have "a # xs = (a # pre) @ s # post \<and> removeFirst P (a # xs) = (a # pre) @ post \<and>
        P s \<and> (\<forall>x \<in> set (a # pre). \<not> P x)"
      by simp
    then show ?thesis by blast
  qed
qed

lemma removeFirst_none: "\<forall>x \<in> set xs. \<not> P x \<Longrightarrow> removeFirst P xs = xs"
  by (induction xs) auto

lemma dropHighest_split:
  assumes "optionals segs \<noteq> []"
  shows "\<exists>pre s post. segs = pre @ s # post \<and> dropHighest segs = pre @ post \<and>
           kind s = Optional \<and> (\<forall>x \<in> set (optionals segs). priority x \<le> priority s)"
proof -
  let ?m = "highest (map priority (optionals segs))"
  from assms have "?m \<in> set (map priority (optionals segs))"
    by (intro highest_mem) simp
  then have "\<exists>s \<in> set segs. kind s = Optional \<and> priority s = ?m"
    by (auto simp: optionals_def)
  from removeFirst_split [OF this] obtain pre s post where
    s: "segs = pre @ s # post" "dropHighest segs = pre @ post" "kind s = Optional" "priority s = ?m"
    unfolding dropHighest_def by blast
  have "\<forall>x \<in> set (optionals segs). priority x \<le> priority s"
    using s(4) by (simp add: highest_ge)
  with s show ?thesis by blast
qed

lemma dropHighest_required:
  "requiredOnly (dropHighest segs) = requiredOnly segs"
proof (cases "optionals segs = []")
  case True
  then have "\<forall>s \<in> set segs. kind s \<noteq> Optional"
    by (simp add: optionals_def filter_empty_conv)
  then show ?thesis
    by (simp add: dropHighest_def removeFirst_none)
next
  case False
  from dropHighest_split [OF this] show ?thesis
    by (auto simp: requiredOnly_def)
qed

lemma dropHighest_subseq: "subseq (dropHighest segs) segs"
proof (cases "optionals segs = []")
  case True
  then have "\<forall>s \<in> set segs. kind s \<noteq> Optional"
    by (simp add: optionals_def filter_empty_conv)
  then show ?thesis
    by (simp add: dropHighest_def removeFirst_none)
next
  case False
  from dropHighest_split [OF this] obtain pre s post where
    "segs = pre @ s # post" "dropHighest segs = pre @ post"
    by blast
  then show ?thesis
    by (simp add: subseq_append' list_emb_Cons)
qed

lemma no_optionals: "optionals segs = [] \<Longrightarrow> requiredOnly segs = segs"
proof -
  assume "optionals segs = []"
  then have "\<forall>s \<in> set segs. kind s = Required"
    by (auto simp: optionals_def filter_empty_conv intro: segmentKind.exhaust)
  then show ?thesis
    by (simp add: requiredOnly_def)
qed

lemma compose_required_le: "length (compose (requiredOnly segs)) \<le> length (compose segs)"
  by (induction segs) (auto simp: compose_def requiredOnly_def)

subsection \<open>The loop\<close>

lemma keptSegments_Inr:
  "keptSegments segs ceiling = Inr kept \<Longrightarrow>
     length (compose kept) \<le> ceiling \<and> subseq kept segs \<and>
     requiredOnly kept = requiredOnly segs \<and>
     (\<exists>n. kept = (dropHighest ^^ n) segs \<and>
          (\<forall>k < n. ceiling < length (compose ((dropHighest ^^ k) segs))))"
proof (induction segs ceiling rule: keptSegments.induct)
  case (1 segs ceiling)
  show ?case
  proof (cases "length (compose segs) \<le> ceiling")
    case True
    with "1.prems" have "kept = segs"
      by (simp add: keptSegments.simps)
    with True have "length (compose kept) \<le> ceiling" "subseq kept segs"
        "requiredOnly kept = requiredOnly segs"
        "kept = (dropHighest ^^ 0) segs \<and>
          (\<forall>k < 0. ceiling < length (compose ((dropHighest ^^ k) segs)))"
      by simp_all
    then show ?thesis by blast
  next
    case False
    with "1.prems" have some: "optionals segs \<noteq> []"
      and rec: "keptSegments (dropHighest segs) ceiling = Inr kept"
      by (auto simp: keptSegments.simps [of segs] split: if_splits)
    from "1.IH" [OF False some rec] obtain n where
      ih: "length (compose kept) \<le> ceiling" "subseq kept (dropHighest segs)"
          "requiredOnly kept = requiredOnly (dropHighest segs)"
          "kept = (dropHighest ^^ n) (dropHighest segs)"
          "\<forall>k < n. ceiling < length (compose ((dropHighest ^^ k) (dropHighest segs)))"
      by blast
    have "subseq kept segs"
      using ih(2) dropHighest_subseq [of segs] by (rule subseq_order.order_trans)
    moreover have "requiredOnly kept = requiredOnly segs"
      using ih(3) by (simp add: dropHighest_required)
    moreover have "kept = (dropHighest ^^ Suc n) segs"
      using ih(4) by (simp add: funpow_swap1)
    moreover have "\<forall>k < Suc n. ceiling < length (compose ((dropHighest ^^ k) segs))"
    proof (intro allI impI)
      fix k assume "k < Suc n"
      show "ceiling < length (compose ((dropHighest ^^ k) segs))"
      proof (cases k)
        case 0
        with False show ?thesis by simp
      next
        case (Suc j)
        with \<open>k < Suc n\<close> ih(5) show ?thesis
          by (simp add: funpow_swap1)
      qed
    qed
    ultimately show ?thesis
      using ih(1) by blast
  qed
qed

lemma keptSegments_Inl:
  "keptSegments segs ceiling = Inl e \<Longrightarrow>
     e = CaptionTooLong \<and> ceiling < length (compose (requiredOnly segs))"
proof (induction segs ceiling rule: keptSegments.induct)
  case (1 segs ceiling)
  from "1.prems" have over: "\<not> length (compose segs) \<le> ceiling"
    by (auto simp: keptSegments.simps [of segs] split: if_splits)
  show ?case
  proof (cases "optionals segs = []")
    case True
    with "1.prems" over have "e = CaptionTooLong"
      by (simp add: keptSegments.simps [of segs])
    with over True show ?thesis
      by (simp add: no_optionals)
  next
    case False
    with "1.prems" over have "keptSegments (dropHighest segs) ceiling = Inl e"
      by (simp add: keptSegments.simps [of segs])
    from "1.IH" [OF over False this] show ?thesis
      by (simp add: dropHighest_required)
  qed
qed

text \<open>
  Claim C6, on the builder modelled from the specification. If the Required segments
  alone fit the ceiling, \<open>build\<close> returns a caption within the ceiling; its text is the
  concatenation of the segments kept, which are what is left of the sequence after the
  least number of removals that makes the text fit, keep the original order and contain
  every Required segment. \<open>build\<close> fails exactly when the Required segments alone exceed
  the ceiling, and then with \<open>CaptionTooLong\<close>. One removal takes out one whole Optional
  segment of the highest priority among the Optional segments left, and nothing else.
\<close>

theorem build_drops_by_priority_until_it_fits:
  "(length (compose (requiredOnly segs)) \<le> ceiling \<longrightarrow>
      (\<exists>cap kept n. build wc segs ceiling = Inr cap \<and>
         length (caption_text cap) \<le> ceiling \<and>
         caption_text cap = compose kept \<and>
         kept = (dropHighest ^^ n) segs \<and>
         (\<forall>k < n. ceiling < length (compose ((dropHighest ^^ k) segs))) \<and>
         subseq kept segs \<and> requiredOnly kept = requiredOnly segs)) \<and>
   (build wc segs ceiling = Inl CaptionTooLong \<longleftrightarrow>
      ceiling < length (compose (requiredOnly segs))) \<and>
   (\<forall>e. build wc segs ceiling = Inl e \<longrightarrow> e = CaptionTooLong) \<and>
   (optionals segs \<noteq> [] \<longrightarrow>
      (\<exists>pre s post. segs = pre @ s # post \<and> dropHighest segs = pre @ post \<and>
         kind s = Optional \<and> (\<forall>x \<in> set (optionals segs). priority x \<le> priority s)))"
proof (intro conjI impI allI)
  assume fits: "length (compose (requiredOnly segs)) \<le> ceiling"
  obtain kept where kept: "keptSegments segs ceiling = Inr kept"
  proof (cases "keptSegments segs ceiling")
    case (Inl e)
    from keptSegments_Inl [OF this] fits show ?thesis by simp
  next
    case (Inr k)
    then show ?thesis by (rule that)
  qed
  let ?cap = "\<lparr>caption_text = compose kept, hashtagSpans = spansOf wc kept\<rparr>"
  have "build wc segs ceiling = Inr ?cap"
    by (simp add: build_def kept)
  moreover have "caption_text ?cap = compose kept"
    by simp
  moreover from keptSegments_Inr [OF kept] obtain n where
    "length (compose kept) \<le> ceiling" "subseq kept segs" "requiredOnly kept = requiredOnly segs"
    "kept = (dropHighest ^^ n) segs" "\<forall>k < n. ceiling < length (compose ((dropHighest ^^ k) segs))"
    by blast
  ultimately show "\<exists>cap kept n. build wc segs ceiling = Inr cap \<and>
         length (caption_text cap) \<le> ceiling \<and>
         caption_text cap = compose kept \<and>
         kept = (dropHighest ^^ n) segs \<and>
         (\<forall>k < n. ceiling < length (compose ((dropHighest ^^ k) segs))) \<and>
         subseq kept segs \<and> requiredOnly kept = requiredOnly segs"
    by (metis (no_types, lifting))
next
  show "build wc segs ceiling = Inl CaptionTooLong \<longleftrightarrow>
      ceiling < length (compose (requiredOnly segs))"
  proof
    assume "build wc segs ceiling = Inl CaptionTooLong"
    then have "keptSegments segs ceiling = Inl CaptionTooLong"
      by (simp add: build_def split: sum.splits)
    from keptSegments_Inl [OF this] show "ceiling < length (compose (requiredOnly segs))"
      by simp
  next
    assume over: "ceiling < length (compose (requiredOnly segs))"
    show "build wc segs ceiling = Inl CaptionTooLong"
    proof (cases "keptSegments segs ceiling")
      case (Inl e)
      with keptSegments_Inl [OF this] show ?thesis
        by (simp add: build_def)
    next
      case (Inr kept)
      from keptSegments_Inr [OF this] have "length (compose kept) \<le> ceiling"
          "requiredOnly kept = requiredOnly segs"
        by simp_all
      with compose_required_le [of kept] over show ?thesis
        by simp
    qed
  qed
next
  fix e
  assume "build wc segs ceiling = Inl e"
  then have "keptSegments segs ceiling = Inl e"
    by (simp add: build_def split: sum.splits)
  from keptSegments_Inl [OF this] show "e = CaptionTooLong"
    by simp
next
  assume "optionals segs \<noteq> []"
  then show "\<exists>pre s post. segs = pre @ s # post \<and> dropHighest segs = pre @ post \<and>
         kind s = Optional \<and> (\<forall>x \<in> set (optionals segs). priority x \<le> priority s)"
    by (rule dropHighest_split)
qed

text \<open>The scenario at the ceilings 20 and 40.\<close>

lemma example_build_20:
  "build exampleWordChar exampleSegments 20 =
     Inr \<lparr>caption_text = asc ''Today'' @ [0x27] @ asc ''s wallpaper'', hashtagSpans = []\<rparr>"
  by (simp add: build_def keptSegments.simps compose_def optionals_def dropHighest_def
      exampleSegments_def asc_def spansOf_def owners_def)


text \<open>The scenario at the ceiling 20: both Optional segments go; at 10 the title alone is too long.\<close>

theorem build_drops_by_priority_until_it_fits_witness:
  "length (compose (requiredOnly exampleSegments)) \<le> 20 \<and>
   build exampleWordChar exampleSegments 20 =
     Inr \<lparr>caption_text = asc ''Today'' @ [0x27] @ asc ''s wallpaper'', hashtagSpans = []\<rparr> \<and>
   (\<exists>cap kept n. build exampleWordChar exampleSegments 20 = Inr cap \<and>
      length (caption_text cap) \<le> 20 \<and> caption_text cap = compose kept \<and>
      kept = (dropHighest ^^ n) exampleSegments \<and> subseq kept exampleSegments \<and>
      requiredOnly kept = requiredOnly exampleSegments) \<and>
   build exampleWordChar exampleSegments 10 = Inl CaptionTooLong"
proof -
  note t = build_drops_by_priority_until_it_fits [of exampleSegments _ exampleWordChar]
  have fits: "length (compose (requiredOnly exampleSegments)) \<le> 20"
    by (simp add: compose_def requiredOnly_def exampleSegments_def asc_def)
  have over: "10 < length (compose (requiredOnly exampleSegments))"
    by (simp add: compose_def requiredOnly_def exampleSegments_def asc_def)
  from t [of 20] fits have "\<exists>cap kept n. build exampleWordChar exampleSegments 20 = Inr cap \<and>
      length (caption_text cap) \<le> 20 \<and> caption_text cap = compose kept \<and>
      kept = (dropHighest ^^ n) exampleSegments \<and> subseq kept exampleSegments \<and>
      requiredOnly kept = requiredOnly exampleSegments"
    by blast
  moreover from t [of 10] over have "build exampleWordChar exampleSegments 10 = Inl CaptionTooLong"
    by blast
  ultimately show ?thesis
    using fits example_build_20 by blast
qed

subsection \<open>Hashtag spans\<close>









subsection \<open>The number of images\<close>

text \<open>
  Claim C5. On the assembler modelled from the specification: a payload that \<open>assemble\<close>
  returns holds at least one image and at most \<open>maxImagesPerPost\<close>, each paired with its
  alt text; an empty image list and a list longer than \<open>maxImagesPerPost\<close> are rejected
  with \<open>TooManyImages\<close>. On the script: every post \<open>postToBluesky\<close> creates embeds exactly
  one image, the uploaded blob, paired with its alt text.
\<close>

theorem post_holds_one_to_max_images:
  "(\<forall>payload. assemble maxImagesPerPost stamp imgs altTexts caption = Inr payload \<longrightarrow>
      1 \<le> length (payloadImages payload) \<and> length (payloadImages payload) \<le> maxImagesPerPost \<and>
      payloadImages payload = zip imgs altTexts \<and> length altTexts = length imgs) \<and>
   (imgs = [] \<longrightarrow> assemble maxImagesPerPost stamp imgs altTexts caption = Inl TooManyImages) \<and>
   (maxImagesPerPost < length imgs \<longrightarrow>
      assemble maxImagesPerPost stamp imgs altTexts caption = Inl TooManyImages) \<and>
   (\<forall>pr. CreatePost pr \<in> set (snd (postToBluesky native w now imagePath dateText info)) \<longrightarrow>
      (\<exists>buf blob. images pr = [\<lparr>alt = ALT_PREFIX @ dateText, image_blob = blob\<rparr>] \<and>
         readFileSync w imagePath = Inr buf \<and> uploadBlob w buf IMAGE_PNG = Inr blob))"
proof (intro conjI impI allI)
  fix payload
  assume a: "assemble maxImagesPerPost stamp imgs altTexts caption = Inr payload"
  then have n: "length imgs \<noteq> 0" "length imgs \<le> maxImagesPerPost" "length altTexts = length imgs"
    and p: "payloadImages payload = zip imgs altTexts"
    by (auto simp: assemble_def split: if_splits)
  then show "1 \<le> length (payloadImages payload)"
    and "length (payloadImages payload) \<le> maxImagesPerPost"
    and "payloadImages payload = zip imgs altTexts"
    and "length altTexts = length imgs"
    by (simp_all add: Suc_le_eq)
next
  assume "imgs = []"
  then show "assemble maxImagesPerPost stamp imgs altTexts caption = Inl TooManyImages"
    by (simp add: assemble_def)
next
  assume "maxImagesPerPost < length imgs"
  then show "assemble maxImagesPerPost stamp imgs altTexts caption = Inl TooManyImages"
    by (simp add: assemble_def)
next
  fix pr
  assume "CreatePost pr \<in> set (snd (postToBluesky native w now imagePath dateText info))"
  from postToBluesky_post [OF this]
  show "\<exists>buf blob. images pr = [\<lparr>alt = ALT_PREFIX @ dateText, image_blob = blob\<rparr>] \<and>
         readFileSync w imagePath = Inr buf \<and> uploadBlob w buf IMAGE_PNG = Inr blob"
    by (auto simp: recordOf_def)
qed

text \<open>No image, two images against a maximum of one and of four, and the example run.\<close>

theorem post_holds_one_to_max_images_witness:
  "assemble 4 [] [] [] \<lparr>caption_text = [], hashtagSpans = []\<rparr> = Inl TooManyImages \<and>
   assemble 1 [] [exampleImage, exampleImage] [asc ''one'', asc ''two'']
     \<lparr>caption_text = [], hashtagSpans = []\<rparr> = Inl TooManyImages \<and>
   (\<exists>payload. assemble 4 [] [exampleImage, exampleImage] [asc ''one'', asc ''two'']
      \<lparr>caption_text = [], hashtagSpans = []\<rparr> = Inr payload \<and> length (payloadImages payload) = 2) \<and>
   (\<exists>blob. images (recordOf noNative [] [] (getBanglaDateInfo exampleCalendar) (asc ''bafkrei-1'') []) =
      [\<lparr>alt = ALT_PREFIX @ [], image_blob = blob\<rparr>])"
proof -
  note t = post_holds_one_to_max_images [of _ "[]" _ _ "\<lparr>caption_text = [], hashtagSpans = []\<rparr>"
      noNative exampleWorld "[]" "asc ''out.png''" "[]" "getBanglaDateInfo exampleCalendar"]
  have "CreatePost (recordOf noNative [] [] (getBanglaDateInfo exampleCalendar) (asc ''bafkrei-1'') [])
      \<in> set (snd (postToBluesky noNative exampleWorld [] (asc ''out.png'') [] (getBanglaDateInfo exampleCalendar)))"
    by (simp add: exampleWorld_run)
  with t [of 4 "[]" "[]"]
  have "\<exists>blob. images (recordOf noNative [] [] (getBanglaDateInfo exampleCalendar) (asc ''bafkrei-1'') []) =
      [\<lparr>alt = ALT_PREFIX @ [], image_blob = blob\<rparr>]"
    by blast
  moreover from t [of 4 "[]" "[]"]
  have "assemble 4 [] [] [] \<lparr>caption_text = [], hashtagSpans = []\<rparr> = Inl TooManyImages"
    by blast
  moreover from t [of 1 "[exampleImage, exampleImage]" "[asc ''one'', asc ''two'']"]
  have "assemble 1 [] [exampleImage, exampleImage] [asc ''one'', asc ''two'']
     \<lparr>caption_text = [], hashtagSpans = []\<rparr> = Inl TooManyImages"
    by simp
  moreover have "\<exists>payload. assemble 4 [] [exampleImage, exampleImage] [asc ''one'', asc ''two'']
      \<lparr>caption_text = [], hashtagSpans = []\<rparr> = Inr payload \<and> length (payloadImages payload) = 2"
    by (simp add: assemble_def)
  ultimately show ?thesis
    by blast
qed

end
